theory Spec2Isabelle
  imports Main "HOL-Library.DAList" "HOL-Library.Word"
begin

section \<open>Values crossing the bridge\<close>

text \<open>
  A Swift \<open>Double\<close> and a JavaScript number are 64-bit IEEE-754 values; the module
  only stores and forwards them, so they are kept as their bit patterns.
\<close>

type_synonym double = "64 word"

text \<open>
  A value of Swift's \<open>Any\<close> as it sits in a \<open>[String: Any]\<close> argument. The constructor
  is the dynamic type a conditional cast \<open>as?\<close> sees; \<open>AnyOther\<close> stands for every value
  of another type (arrays, nested dictionaries, null).
\<close>

datatype any = AnyString string | AnyInt int | AnyDouble double | AnyBool bool | AnyOther

type_synonym dictionary = "(string \<times> any) list"

text \<open>
  A dictionary is the list of its entries, and \<open>dict[key]\<close> is \<open>map_of dict key\<close>. The casts
  \<open>as? String\<close>, \<open>as? Int\<close> and \<open>as? Double\<close> are applied to the result of the lookup.
\<close>

fun asString :: "any option \<Rightarrow> string option" where
  "asString (Some (AnyString s)) = Some s"
| "asString _ = None"

fun asInt :: "any option \<Rightarrow> int option" where
  "asInt (Some (AnyInt n)) = Some n"
| "asInt _ = None"

fun asDouble :: "any option \<Rightarrow> double option" where
  "asDouble (Some (AnyDouble d)) = Some d"
| "asDouble _ = None"

section \<open>The built-in activity kinds\<close>

record CounterActivityAttributes =
  counter_title :: string
  counter_color :: "string option"

record CounterContentState =
  counter_value :: int
  counter_status :: "string option"

record StatusActivityAttributes =
  status_identifier :: string
  status_title :: string

record StatusContentState =
  status_status :: string
  status_progress :: "int option"
  status_details :: "string option"
  status_timestamp :: "double option"

record ProgressActivityAttributes =
  progress_title :: string
  progress_total :: int
  progress_unit :: "string option"

record ProgressContentState =
  progress_current :: int
  progress_description :: "string option"
  progress_percentage :: "int option"

section \<open>Errors\<close>

datatype LiveActivityError =
    unsupported
  | unknownType string
  | invalidAttributes string
  | invalidContent string
  | notFound string
  | startFailed string
  | updateFailed string
  | endFailed string

fun errorDescription :: "LiveActivityError \<Rightarrow> string" where
  "errorDescription unsupported = ''Live Activities require iOS 16.1 or later''"
| "errorDescription (unknownType type) = ''Unknown activity type: '' @ type"
| "errorDescription (invalidAttributes message) = ''Invalid attributes: '' @ message"
| "errorDescription (invalidContent message) = ''Invalid content: '' @ message"
| "errorDescription (notFound ident) = ''Activity not found: '' @ ident"
| "errorDescription (startFailed message) = ''Failed to start activity: '' @ message"
| "errorDescription (updateFailed message) = ''Failed to update activity: '' @ message"
| "errorDescription (endFailed message) = ''Failed to end activity: '' @ message"

text \<open>
  What a throwing helper of the module can throw: one of its own errors, or the error
  of the host's \<open>Activity.request\<close>, of which only the localized description is used.
\<close>

datatype swift_error = LiveActivity LiveActivityError | ActivityKit string

fun localizedDescription :: "swift_error \<Rightarrow> string" where
  "localizedDescription (LiveActivity e) = errorDescription e"
| "localizedDescription (ActivityKit message) = message"

section \<open>The module's state\<close>

text \<open>
  The values of the registry have type \<open>Any\<close>. \<open>Activity<T>\<close> for the three attribute
  types carries its attributes and the content it was requested with; \<open>NotAnActivity\<close>
  is any value none of the three casts accepts.
\<close>

datatype stored =
    CounterActivity CounterActivityAttributes CounterContentState
  | StatusActivity StatusActivityAttributes StatusContentState
  | ProgressActivity ProgressActivityAttributes ProgressContentState
  | NotAnActivity

datatype content =
    CounterContent CounterContentState
  | StatusContent StatusContentState
  | ProgressContent ProgressContentState

text \<open>\<open>.after(.now + 3)\<close> is a date relative to the moment of the call.\<close>

datatype Date = NowPlus nat

datatype ActivityUIDismissalPolicy = policy_default | policy_immediate | policy_after Date

text \<open>
  The calls the module makes to the host. \<open>Request\<close> is the synchronous
  \<open>Activity.request\<close>. \<open>UpdateTask\<close> and \<open>EndTask\<close> are the closures handed to \<open>Task\<close>:
  the module spawns them and never awaits them. \<open>EndTask a p\<close> tries the three casts
  when it runs, calls \<open>end(dismissalPolicy: p)\<close> on the first that succeeds and does
  nothing when none does.
\<close>

datatype host_call =
    Request stored
  | UpdateTask stored content
  | EndTask stored ActivityUIDismissalPolicy

record module_state =
  activeActivities :: "(string, stored) alist"
  hostCalls :: "host_call list"

definition initial :: module_state where
  "initial = \<lparr>activeActivities = DAList.empty, hostCalls = []\<rparr>"

text \<open>The host: \<open>Platform.OS\<close> and the version of the operating system (major, minor).\<close>

record host =
  platformOS :: string
  systemVersion :: "nat \<times> nat"

text \<open>\<open>#available(iOS major.minor, *)\<close>\<close>

definition available :: "nat \<times> nat \<Rightarrow> host \<Rightarrow> bool" where
  "available v h =
     (fst v < fst (systemVersion h) \<or>
      (fst v = fst (systemVersion h) \<and> snd v \<le> snd (systemVersion h)))"

text \<open>The two versions the module tests for.\<close>

definition iOS_16_1 :: "nat \<times> nat" where
  "iOS_16_1 = (16, 1)"

definition iOS_16_2 :: "nat \<times> nat" where
  "iOS_16_2 = (16, 2)"

section \<open>Parsers of the three kinds\<close>

definition parseCounterAttributes :: "dictionary \<Rightarrow> swift_error + CounterActivityAttributes" where
  "parseCounterAttributes dict =
     (case asString (map_of dict ''title'') of
        None \<Rightarrow> Inl (LiveActivity (invalidAttributes ''Missing 'title' for CounterActivity''))
      | Some title \<Rightarrow>
          Inr \<lparr>counter_title = title, counter_color = asString (map_of dict ''color'')\<rparr>)"

definition parseCounterContent :: "dictionary \<Rightarrow> swift_error + CounterContentState" where
  "parseCounterContent dict =
     (case asInt (map_of dict ''value'') of
        None \<Rightarrow> Inl (LiveActivity (invalidContent ''Missing 'value' for CounterActivity''))
      | Some v \<Rightarrow>
          Inr \<lparr>counter_value = v, counter_status = asString (map_of dict ''status'')\<rparr>)"

definition parseStatusAttributes :: "dictionary \<Rightarrow> swift_error + StatusActivityAttributes" where
  "parseStatusAttributes dict =
     (case asString (map_of dict ''identifier'') of
        None \<Rightarrow> Inl (LiveActivity
          (invalidAttributes ''Missing 'identifier' or 'title' for StatusActivity''))
      | Some identifier \<Rightarrow>
         (case asString (map_of dict ''title'') of
            None \<Rightarrow> Inl (LiveActivity
              (invalidAttributes ''Missing 'identifier' or 'title' for StatusActivity''))
          | Some title \<Rightarrow>
              Inr \<lparr>status_identifier = identifier, status_title = title\<rparr>))"

definition parseStatusContent :: "dictionary \<Rightarrow> swift_error + StatusContentState" where
  "parseStatusContent dict =
     (case asString (map_of dict ''status'') of
        None \<Rightarrow> Inl (LiveActivity (invalidContent ''Missing 'status' for StatusActivity''))
      | Some status \<Rightarrow>
          Inr \<lparr>status_status = status,
               status_progress = asInt (map_of dict ''progress''),
               status_details = asString (map_of dict ''details''),
               status_timestamp = asDouble (map_of dict ''timestamp'')\<rparr>)"

definition parseProgressAttributes :: "dictionary \<Rightarrow> swift_error + ProgressActivityAttributes" where
  "parseProgressAttributes dict =
     (case asString (map_of dict ''title'') of
        None \<Rightarrow> Inl (LiveActivity
          (invalidAttributes ''Missing 'title' or 'total' for ProgressActivity''))
      | Some title \<Rightarrow>
         (case asInt (map_of dict ''total'') of
            None \<Rightarrow> Inl (LiveActivity
              (invalidAttributes ''Missing 'title' or 'total' for ProgressActivity''))
          | Some n \<Rightarrow>
              Inr \<lparr>progress_title = title, progress_total = n,
                   progress_unit = asString (map_of dict ''unit'')\<rparr>))"

definition parseProgressContent :: "dictionary \<Rightarrow> swift_error + ProgressContentState" where
  "parseProgressContent dict =
     (case asInt (map_of dict ''current'') of
        None \<Rightarrow> Inl (LiveActivity (invalidContent ''Missing 'current' for ProgressActivity''))
      | Some current \<Rightarrow>
          Inr \<lparr>progress_current = current,
               progress_description = asString (map_of dict ''description''),
               progress_percentage = asInt (map_of dict ''percentage'')\<rparr>)"

section \<open>Creating, updating and ending an activity\<close>

text \<open>
  \<open>Activity<T>.request(attributes:contentState:pushType:)\<close> either returns the activity or
  throws. Whether it throws is the host's decision: \<open>requestError\<close> is \<open>None\<close> when the
  host materialises the activity and \<open>Some message\<close> when it throws an error with that
  description.
\<close>

definition request :: "string option \<Rightarrow> stored \<Rightarrow> swift_error + stored" where
  "request requestError activity =
     (case requestError of None \<Rightarrow> Inr activity | Some message \<Rightarrow> Inl (ActivityKit message))"

definition createCounterActivity ::
  "module_state \<Rightarrow> string option \<Rightarrow> string \<Rightarrow> dictionary \<Rightarrow> dictionary
     \<Rightarrow> swift_error + module_state" where
  "createCounterActivity s requestError activityId attributes contentState =
     (case parseCounterAttributes attributes of
        Inl e \<Rightarrow> Inl e
      | Inr attrs \<Rightarrow>
         (case parseCounterContent contentState of
            Inl e \<Rightarrow> Inl e
          | Inr content \<Rightarrow>
             (case request requestError (CounterActivity attrs content) of
                Inl e \<Rightarrow> Inl e
              | Inr activity \<Rightarrow>
                  Inr \<lparr>activeActivities = DAList.update activityId activity (activeActivities s),
                       hostCalls = hostCalls s @ [Request activity]\<rparr>)))"

definition createStatusActivity ::
  "module_state \<Rightarrow> string option \<Rightarrow> string \<Rightarrow> dictionary \<Rightarrow> dictionary
     \<Rightarrow> swift_error + module_state" where
  "createStatusActivity s requestError activityId attributes contentState =
     (case parseStatusAttributes attributes of
        Inl e \<Rightarrow> Inl e
      | Inr attrs \<Rightarrow>
         (case parseStatusContent contentState of
            Inl e \<Rightarrow> Inl e
          | Inr content \<Rightarrow>
             (case request requestError (StatusActivity attrs content) of
                Inl e \<Rightarrow> Inl e
              | Inr activity \<Rightarrow>
                  Inr \<lparr>activeActivities = DAList.update activityId activity (activeActivities s),
                       hostCalls = hostCalls s @ [Request activity]\<rparr>)))"

definition createProgressActivity ::
  "module_state \<Rightarrow> string option \<Rightarrow> string \<Rightarrow> dictionary \<Rightarrow> dictionary
     \<Rightarrow> swift_error + module_state" where
  "createProgressActivity s requestError activityId attributes contentState =
     (case parseProgressAttributes attributes of
        Inl e \<Rightarrow> Inl e
      | Inr attrs \<Rightarrow>
         (case parseProgressContent contentState of
            Inl e \<Rightarrow> Inl e
          | Inr content \<Rightarrow>
             (case request requestError (ProgressActivity attrs content) of
                Inl e \<Rightarrow> Inl e
              | Inr activity \<Rightarrow>
                  Inr \<lparr>activeActivities = DAList.update activityId activity (activeActivities s),
                       hostCalls = hostCalls s @ [Request activity]\<rparr>)))"

definition createActivity ::
  "module_state \<Rightarrow> string option \<Rightarrow> string \<Rightarrow> string \<Rightarrow> dictionary \<Rightarrow> dictionary
     \<Rightarrow> swift_error + module_state" where
  "createActivity s requestError activityId activityType attributes contentState =
     (if activityType = ''CounterActivity''
        then createCounterActivity s requestError activityId attributes contentState
      else if activityType = ''StatusActivity''
        then createStatusActivity s requestError activityId attributes contentState
      else if activityType = ''ProgressActivity''
        then createProgressActivity s requestError activityId attributes contentState
      else Inl (LiveActivity (unknownType activityType)))"

definition spawn :: "host_call \<Rightarrow> module_state \<Rightarrow> module_state" where
  "spawn task s = s\<lparr>hostCalls := hostCalls s @ [task]\<rparr>"

definition updateExistingActivity ::
  "module_state \<Rightarrow> string \<Rightarrow> dictionary \<Rightarrow> swift_error + module_state" where
  "updateExistingActivity s activityId contentState =
     (case DAList.lookup (activeActivities s) activityId of
        None \<Rightarrow> Inl (LiveActivity (notFound activityId))
      | Some activity \<Rightarrow>
         (case activity of
            CounterActivity _ _ \<Rightarrow>
              (case parseCounterContent contentState of
                 Inl e \<Rightarrow> Inl e
               | Inr content \<Rightarrow> Inr (spawn (UpdateTask activity (CounterContent content)) s))
          | StatusActivity _ _ \<Rightarrow>
              (case parseStatusContent contentState of
                 Inl e \<Rightarrow> Inl e
               | Inr content \<Rightarrow> Inr (spawn (UpdateTask activity (StatusContent content)) s))
          | ProgressActivity _ _ \<Rightarrow>
              (case parseProgressContent contentState of
                 Inl e \<Rightarrow> Inl e
               | Inr content \<Rightarrow> Inr (spawn (UpdateTask activity (ProgressContent content)) s))
          | NotAnActivity \<Rightarrow>
              Inl (LiveActivity (unknownType (''Unknown activity type for ID: '' @ activityId)))))"

definition endExistingActivity ::
  "module_state \<Rightarrow> string \<Rightarrow> ActivityUIDismissalPolicy \<Rightarrow> swift_error + module_state" where
  "endExistingActivity s activityId dismissalPolicy =
     (case DAList.lookup (activeActivities s) activityId of
        None \<Rightarrow> Inl (LiveActivity (notFound activityId))
      | Some activity \<Rightarrow>
          Inr ((spawn (EndTask activity dismissalPolicy) s)
                 \<lparr>activeActivities := DAList.delete activityId (activeActivities s)\<rparr>))"

text \<open>
  \<open>String.lowercased()\<close> on the letters A to Z. Swift lowercases by Unicode; no character
  outside A to Z lowercases to a letter of \<open>immediate\<close> or \<open>after\<close>, so the two
  comparisons below see the same result.
\<close>

definition lowercaseChar :: "char \<Rightarrow> char" where
  "lowercaseChar c =
     (case map_of (zip ''ABCDEFGHIJKLMNOPQRSTUVWXYZ'' ''abcdefghijklmnopqrstuvwxyz'') c of
        Some l \<Rightarrow> l
      | None \<Rightarrow> c)"

definition lowercased :: "string \<Rightarrow> string" where
  "lowercased str = map lowercaseChar str"

definition parseDismissalPolicy :: "host \<Rightarrow> string \<Rightarrow> ActivityUIDismissalPolicy" where
  "parseDismissalPolicy h policy =
     (if lowercased policy = ''immediate'' then policy_immediate
      else if lowercased policy = ''after'' then
        (if available iOS_16_2 h then policy_after (NowPlus 3) else policy_default)
      else policy_default)"

section \<open>The native module\<close>

text \<open>
  \<open>UUID().uuidString\<close>: the 128 random bits of the host, printed as 32 upper-case
  hexadecimal digits in the groups 8-4-4-4-12.
\<close>

definition hexDigit :: "nat \<Rightarrow> char" where
  "hexDigit n = ''0123456789ABCDEF'' ! (n mod 16)"

definition hexByte :: "8 word \<Rightarrow> string" where
  "hexByte b = [hexDigit (unat b div 16), hexDigit (unat b mod 16)]"

definition uuidBytes :: "128 word \<Rightarrow> 8 word list" where
  "uuidBytes u = map (\<lambda>i. ucast (drop_bit (8 * (15 - i)) u)) [0..<16]"

definition uuidString :: "128 word \<Rightarrow> string" where
  "uuidString u =
     (let h = concat (map hexByte (uuidBytes u))
      in take 8 h @ ''-'' @ take 4 (drop 8 h) @ ''-'' @ take 4 (drop 12 h) @ ''-'' @
         take 4 (drop 16 h) @ ''-'' @ take 12 (drop 20 h))"

record ActivityInfo =
  info_activityId :: string
  info_activityType :: string
  info_startTime :: double

text \<open>
  The functions of \<open>ExpoLiveActivitiesModule\<close>. Each takes the host and the module's
  state and returns its result with the new state. \<open>startActivity\<close> reads three things
  from the host: the random bits of \<open>UUID()\<close>, the clock (\<open>Date().timeIntervalSince1970\<close>)
  and the outcome of \<open>Activity.request\<close>.
\<close>

definition Module_isSupported :: "host \<Rightarrow> bool" where
  "Module_isSupported h = (if available iOS_16_1 h then True else False)"

definition Module_startActivity ::
  "host \<Rightarrow> module_state \<Rightarrow> 128 word \<Rightarrow> double \<Rightarrow> string option
     \<Rightarrow> string \<Rightarrow> dictionary \<Rightarrow> dictionary
     \<Rightarrow> (LiveActivityError + ActivityInfo) \<times> module_state" where
  "Module_startActivity h s uuid now requestError activityType attributes contentState =
     (if \<not> available iOS_16_1 h then (Inl unsupported, s)
      else
        let activityId = uuidString uuid; startTime = now
        in case createActivity s requestError activityId activityType attributes contentState of
             Inl e \<Rightarrow> (Inl (startFailed (localizedDescription e)), s)
           | Inr s' \<Rightarrow>
               (Inr \<lparr>info_activityId = activityId, info_activityType = activityType,
                     info_startTime = startTime\<rparr>, s'))"

definition Module_updateActivity ::
  "host \<Rightarrow> module_state \<Rightarrow> string \<Rightarrow> dictionary \<Rightarrow> (LiveActivityError + unit) \<times> module_state" where
  "Module_updateActivity h s activityId contentState =
     (if \<not> available iOS_16_1 h then (Inl unsupported, s)
      else case updateExistingActivity s activityId contentState of
             Inl e \<Rightarrow> (Inl (updateFailed (localizedDescription e)), s)
           | Inr s' \<Rightarrow> (Inr (), s'))"

definition Module_endActivity ::
  "host \<Rightarrow> module_state \<Rightarrow> string \<Rightarrow> string \<Rightarrow> (LiveActivityError + unit) \<times> module_state" where
  "Module_endActivity h s activityId dismissalPolicy =
     (if \<not> available iOS_16_1 h then (Inl unsupported, s)
      else
        let policy = parseDismissalPolicy h dismissalPolicy
        in case endExistingActivity s activityId policy of
             Inl e \<Rightarrow> (Inl (endFailed (localizedDescription e)), s)
           | Inr s' \<Rightarrow> (Inr (), s'))"

text \<open>
  \<open>Array(self.activeActivities.keys)\<close>. Swift leaves the order of a dictionary's keys
  open; the list below is one such order, and only its set of elements is used.
\<close>

definition Module_getAllActivities :: "host \<Rightarrow> module_state \<Rightarrow> string list" where
  "Module_getAllActivities h s =
     (if \<not> available iOS_16_1 h then []
      else map fst (DAList.impl_of (activeActivities s)))"

section \<open>The TypeScript facade\<close>

datatype jsval =
    JUndefined
  | JNull
  | JBoolean bool
  | JNumber double
  | JString string
  | JObject dictionary

text \<open>A number is NaN when its exponent bits are all set and its fraction is not zero.\<close>

definition isNaN :: "double \<Rightarrow> bool" where
  "isNaN d = (and d 0x7FF0000000000000 = 0x7FF0000000000000 \<and> and d 0x000FFFFFFFFFFFFF \<noteq> 0)"

text \<open>JavaScript's ToBoolean: what \<open>!v\<close> and \<open>v || w\<close> test.\<close>

fun truthy :: "jsval \<Rightarrow> bool" where
  "truthy JUndefined = False"
| "truthy JNull = False"
| "truthy (JBoolean b) = b"
| "truthy (JNumber d) = (d \<noteq> 0 \<and> d \<noteq> 0x8000000000000000 \<and> \<not> isNaN d)"
| "truthy (JString str) = (str \<noteq> [])"
| "truthy (JObject _) = True"

definition js_or :: "jsval \<Rightarrow> jsval \<Rightarrow> jsval" where
  "js_or v w = (if truthy v then v else w)"

fun typeof :: "jsval \<Rightarrow> string" where
  "typeof JUndefined = ''undefined''"
| "typeof JNull = ''object''"
| "typeof (JBoolean _) = ''boolean''"
| "typeof (JNumber _) = ''number''"
| "typeof (JString _) = ''string''"
| "typeof (JObject _) = ''object''"

text \<open>
  The errors a facade function rejects with. \<open>Error m\<close> is \<open>new Error(m)\<close> with a
  literal message, \<open>ErrorFrom prefix e\<close> is \<open>new Error(`prefix${e}`)\<close> for a caught
  \<open>e\<close>. \<open>Rejected e\<close> is the rejection of a call of the native module whose body threw
  \<open>e\<close>, \<open>CastFailed\<close> the rejection of a call whose arguments do not convert.
\<close>

datatype js_error =
    Error string
  | ErrorFrom string js_error
  | Rejected LiveActivityError
  | CastFailed

text \<open>
  A call of the native module from JavaScript. The framework (expo-modules-core) converts
  the arguments to the parameter types of the Swift closure before the body runs, and
  rejects the call when one does not convert: a string converts to \<open>String\<close>, a record to
  \<open>[String: Any]\<close>.
\<close>

definition call_startActivity ::
  "host \<Rightarrow> module_state \<Rightarrow> 128 word \<Rightarrow> double \<Rightarrow> string option
     \<Rightarrow> jsval \<Rightarrow> jsval \<Rightarrow> jsval \<Rightarrow> (js_error + ActivityInfo) \<times> module_state" where
  "call_startActivity h s uuid now requestError activityType attributes contentState =
     (case (activityType, attributes, contentState) of
        (JString t, JObject a, JObject c) \<Rightarrow>
          (case Module_startActivity h s uuid now requestError t a c of
             (Inl e, s') \<Rightarrow> (Inl (Rejected e), s')
           | (Inr info, s') \<Rightarrow> (Inr info, s'))
      | _ \<Rightarrow> (Inl CastFailed, s))"

definition call_updateActivity ::
  "host \<Rightarrow> module_state \<Rightarrow> jsval \<Rightarrow> jsval \<Rightarrow> (js_error + unit) \<times> module_state" where
  "call_updateActivity h s activityId contentState =
     (case (activityId, contentState) of
        (JString i, JObject c) \<Rightarrow>
          (case Module_updateActivity h s i c of
             (Inl e, s') \<Rightarrow> (Inl (Rejected e), s')
           | (Inr u, s') \<Rightarrow> (Inr u, s'))
      | _ \<Rightarrow> (Inl CastFailed, s))"

definition call_endActivity ::
  "host \<Rightarrow> module_state \<Rightarrow> jsval \<Rightarrow> string \<Rightarrow> (js_error + unit) \<times> module_state" where
  "call_endActivity h s activityId dismissalPolicy =
     (case activityId of
        JString i \<Rightarrow>
          (case Module_endActivity h s i dismissalPolicy of
             (Inl e, s') \<Rightarrow> (Inl (Rejected e), s')
           | (Inr u, s') \<Rightarrow> (Inr u, s'))
      | _ \<Rightarrow> (Inl CastFailed, s))"

text \<open>
  \<open>ExpoLiveActivitiesModule\<close> is the native module when \<open>Platform.OS\<close> is \<open>ios\<close> and
  \<open>null\<close> otherwise, so the test for \<open>null\<close> adds nothing to the test of the platform.
\<close>

definition isSupported :: "host \<Rightarrow> bool" where
  "isSupported h = (if platformOS h \<noteq> ''ios'' then False else Module_isSupported h)"

definition notSupportedMessage :: string where
  "notSupportedMessage = ''Live Activities are not supported on this device (requires iOS 16.1+)''"

definition startActivity ::
  "host \<Rightarrow> module_state \<Rightarrow> 128 word \<Rightarrow> double \<Rightarrow> string option
     \<Rightarrow> jsval \<Rightarrow> jsval \<Rightarrow> jsval \<Rightarrow> (js_error + ActivityInfo) \<times> module_state" where
  "startActivity h s uuid now requestError activityType attributes contentState =
     (if \<not> isSupported h then (Inl (Error notSupportedMessage), s)
      else if \<not> truthy activityType \<or> typeof activityType \<noteq> ''string''
        then (Inl (Error ''activityType must be a non-empty string''), s)
      else case call_startActivity h s uuid now requestError activityType
                  (js_or attributes (JObject [])) (js_or contentState (JObject [])) of
             (Inl e, s') \<Rightarrow> (Inl (ErrorFrom ''Failed to start activity: '' e), s')
           | (Inr result, s') \<Rightarrow> (Inr result, s'))"

definition updateActivity ::
  "host \<Rightarrow> module_state \<Rightarrow> jsval \<Rightarrow> jsval \<Rightarrow> (js_error + unit) \<times> module_state" where
  "updateActivity h s activityId contentState =
     (if \<not> isSupported h then (Inl (Error notSupportedMessage), s)
      else if \<not> truthy activityId \<or> typeof activityId \<noteq> ''string''
        then (Inl (Error ''activityId must be a non-empty string''), s)
      else case call_updateActivity h s activityId (js_or contentState (JObject [])) of
             (Inl e, s') \<Rightarrow> (Inl (ErrorFrom ''Failed to update activity: '' e), s')
           | (Inr u, s') \<Rightarrow> (Inr u, s'))"

text \<open>An omitted \<open>dismissalPolicy\<close> (\<open>None\<close>) takes the default value of the parameter.\<close>

definition endActivity ::
  "host \<Rightarrow> module_state \<Rightarrow> jsval \<Rightarrow> string option \<Rightarrow> (js_error + unit) \<times> module_state" where
  "endActivity h s activityId dismissalPolicy =
     (let policy = (case dismissalPolicy of None \<Rightarrow> ''default'' | Some p \<Rightarrow> p)
      in if \<not> isSupported h then (Inl (Error notSupportedMessage), s)
         else if \<not> truthy activityId \<or> typeof activityId \<noteq> ''string''
           then (Inl (Error ''activityId must be a non-empty string''), s)
         else case call_endActivity h s activityId policy of
                (Inl e, s') \<Rightarrow> (Inl (ErrorFrom ''Failed to end activity: '' e), s')
              | (Inr u, s') \<Rightarrow> (Inr u, s'))"

text \<open>The native function never throws, so the \<open>catch\<close> of the facade is never taken.\<close>

definition getAllActivities :: "host \<Rightarrow> module_state \<Rightarrow> string list" where
  "getAllActivities h s = (if \<not> isSupported h then [] else Module_getAllActivities h s)"

text \<open>
  \<open>activityIds.map(id => endActivity(id, dismissalPolicy))\<close>: every call is made, one id
  after the other, whatever the calls before it returned.
\<close>

fun endEach ::
  "host \<Rightarrow> string \<Rightarrow> string list \<Rightarrow> module_state \<Rightarrow> (js_error + unit) list \<times> module_state" where
  "endEach h policy [] s = ([], s)"
| "endEach h policy (i # ids) s =
     (case endActivity h s (JString i) (Some policy) of
        (r, s') \<Rightarrow> (case endEach h policy ids s' of (rs, s'') \<Rightarrow> (r # rs, s'')))"

text \<open>
  \<open>Promise.all\<close> fulfils when every promise does, and rejects with the rejection that
  comes first in time. A call of \<open>endActivity\<close> that fails one of the facade's own checks
  throws before its first \<open>await\<close>, so its promise rejects before the promise of any
  call that went on to the native module; within either group the promises settle in
  the order of the calls.
\<close>

fun firstRejection :: "(js_error + unit) list \<Rightarrow> js_error option" where
  "firstRejection [] = None"
| "firstRejection (Inl e # rs) = Some e"
| "firstRejection (Inr _ # rs) = firstRejection rs"

fun beforeAwait :: "js_error + unit \<Rightarrow> bool" where
  "beforeAwait (Inl (Error _)) = True"
| "beforeAwait _ = False"

definition promiseAll :: "(js_error + unit) list \<Rightarrow> js_error + unit" where
  "promiseAll rs =
     (case firstRejection (filter beforeAwait rs) of
        Some e \<Rightarrow> Inl e
      | None \<Rightarrow> (case firstRejection rs of Some e \<Rightarrow> Inl e | None \<Rightarrow> Inr ()))"

definition endAllActivities ::
  "host \<Rightarrow> module_state \<Rightarrow> string option \<Rightarrow> (js_error + unit) \<times> module_state" where
  "endAllActivities h s dismissalPolicy =
     (let policy = (case dismissalPolicy of None \<Rightarrow> ''default'' | Some p \<Rightarrow> p)
      in if \<not> isSupported h then (Inr (), s)
         else
           let activityIds = getAllActivities h s
           in case endEach h policy activityIds s of
                (rs, s') \<Rightarrow>
                  (case promiseAll rs of
                     Inl e \<Rightarrow> (Inl (ErrorFrom ''Failed to end all activities: '' e), s')
                   | Inr u \<Rightarrow> (Inr u, s')))"

section \<open>Sequences of calls\<close>

text \<open>
  A caller of the facade: a list of calls, made one after the other on the state the
  call before returned, with the outcome of each.
\<close>

datatype call =
    Start "128 word" double "string option" jsval jsval jsval
  | Update jsval jsval
  | End jsval "string option"
  | EndAll "string option"

datatype outcome = Started ActivityInfo | Done | Failed js_error

fun perform :: "host \<Rightarrow> module_state \<Rightarrow> call \<Rightarrow> outcome \<times> module_state" where
  "perform h s (Start uuid now requestError activityType attributes contentState) =
     (case startActivity h s uuid now requestError activityType attributes contentState of
        (Inl e, s') \<Rightarrow> (Failed e, s')
      | (Inr info, s') \<Rightarrow> (Started info, s'))"
| "perform h s (Update activityId contentState) =
     (case updateActivity h s activityId contentState of
        (Inl e, s') \<Rightarrow> (Failed e, s')
      | (Inr _, s') \<Rightarrow> (Done, s'))"
| "perform h s (End activityId dismissalPolicy) =
     (case endActivity h s activityId dismissalPolicy of
        (Inl e, s') \<Rightarrow> (Failed e, s')
      | (Inr _, s') \<Rightarrow> (Done, s'))"
| "perform h s (EndAll dismissalPolicy) =
     (case endAllActivities h s dismissalPolicy of
        (Inl e, s') \<Rightarrow> (Failed e, s')
      | (Inr _, s') \<Rightarrow> (Done, s'))"

fun run :: "host \<Rightarrow> module_state \<Rightarrow> call list \<Rightarrow> (call \<times> outcome) list \<times> module_state" where
  "run h s [] = ([], s)"
| "run h s (c # cs) =
     (case perform h s c of
        (out, s') \<Rightarrow> (case run h s' cs of (log, s'') \<Rightarrow> ((c, out) # log, s'')))"

text \<open>
  The live instances after a sequence of calls, read off the calls and their outcomes:
  an id is live from the start that returned it to the end that succeeded on it.
\<close>

fun liveStep :: "string set \<Rightarrow> call \<times> outcome \<Rightarrow> string set" where
  "liveStep L (Start _ _ _ _ _ _, Started info) = insert (info_activityId info) L"
| "liveStep L (End (JString i) _, Done) = L - {i}"
| "liveStep L (EndAll _, Done) = {}"
| "liveStep L _ = L"

definition liveAfter :: "(call \<times> outcome) list \<Rightarrow> string set" where
  "liveAfter log = foldl liveStep {} log"

text \<open>The ids of the registry.\<close>

definition registryKeys :: "module_state \<Rightarrow> string set" where
  "registryKeys s = set (map fst (DAList.impl_of (activeActivities s)))"

text \<open>The states the native module can be in: those its functions lead to from the empty registry.\<close>

inductive reachable :: "host \<Rightarrow> module_state \<Rightarrow> bool" for h :: host where
  reachable_initial: "reachable h initial"
| reachable_start:
    "reachable h s \<Longrightarrow>
     reachable h (snd (Module_startActivity h s uuid now requestError activityType attributes contentState))"
| reachable_update:
    "reachable h s \<Longrightarrow> reachable h (snd (Module_updateActivity h s activityId contentState))"
| reachable_end:
    "reachable h s \<Longrightarrow> reachable h (snd (Module_endActivity h s activityId dismissalPolicy))"

text \<open>Every id is a non-empty string and every value is an activity of one of the three kinds.\<close>

definition wellFormed :: "module_state \<Rightarrow> bool" where
  "wellFormed s =
     list_all (\<lambda>(k, v). k \<noteq> [] \<and> v \<noteq> NotAnActivity) (DAList.impl_of (activeActivities s))"

text \<open>
  The trial of the three casts \<open>as? Activity<...>\<close> that update and end make on a value of
  the registry, as the name of the kind whose branch accepts it.
\<close>

fun resolvedKind :: "stored \<Rightarrow> string option" where
  "resolvedKind (CounterActivity _ _) = Some ''CounterActivity''"
| "resolvedKind (StatusActivity _ _) = Some ''StatusActivity''"
| "resolvedKind (ProgressActivity _ _) = Some ''ProgressActivity''"
| "resolvedKind NotAnActivity = None"

text \<open>
  The content parser that the creation of a kind uses, for the three kinds that
  \<open>createActivity\<close> creates.
\<close>

definition contentParser :: "string \<Rightarrow> dictionary \<Rightarrow> swift_error + content" where
  "contentParser kind dict =
     (if kind = ''CounterActivity'' then map_sum id CounterContent (parseCounterContent dict)
      else if kind = ''StatusActivity'' then map_sum id StatusContent (parseStatusContent dict)
      else map_sum id ProgressContent (parseProgressContent dict))"

text \<open>
  The required content fields of the kind of an activity, present with their types:
  \<open>value\<close> (integer) for a counter, \<open>status\<close> (string) for a status, \<open>current\<close> (integer)
  for a progress.
\<close>

fun hasRequiredContent :: "stored \<Rightarrow> dictionary \<Rightarrow> bool" where
  "hasRequiredContent (CounterActivity _ _) dict = (asInt (map_of dict ''value'') \<noteq> None)"
| "hasRequiredContent (StatusActivity _ _) dict = (asString (map_of dict ''status'') \<noteq> None)"
| "hasRequiredContent (ProgressActivity _ _) dict = (asInt (map_of dict ''current'') \<noteq> None)"
| "hasRequiredContent NotAnActivity dict = False"

text \<open>A device running iOS at the given version.\<close>

definition iPhone :: "nat \<times> nat \<Rightarrow> host" where
  "iPhone v = \<lparr>platformOS = ''ios'', systemVersion = v\<rparr>"

section \<open>Example inputs\<close>

definition counterStart :: call where
  "counterStart =
     Start 0 0 None (JString ''CounterActivity'')
       (JObject [(''title'', AnyString ''T'')]) (JObject [(''value'', AnyInt 10)])"

definition counterT :: stored where
  "counterT = CounterActivity \<lparr>counter_title = ''T'', counter_color = None\<rparr>
                 \<lparr>counter_value = 10, counter_status = None\<rparr>"

definition counterStarted :: module_state where
  "counterStarted =
     \<lparr>activeActivities = DAList.update (uuidString 0) counterT DAList.empty,
      hostCalls = [Request counterT]\<rparr>"

definition android :: host where
  "android = \<lparr>platformOS = ''android'', systemVersion = (14, 0)\<rparr>"

text \<open>A registry that holds an entry under the empty string beside a started counter.\<close>

definition withEmptyId :: module_state where
  "withEmptyId =
     \<lparr>activeActivities = DAList.update [] counterT (DAList.update (uuidString 0) counterT DAList.empty),
      hostCalls = []\<rparr>"

section \<open>Facts about the registry\<close>

lemma uuidString_nonempty: "uuidString u \<noteq> []"
  by (simp add: uuidString_def Let_def)

lemma keys_lookup: "k \<in> set (map fst (DAList.impl_of al)) \<longleftrightarrow> DAList.lookup al k \<noteq> None"
  by (simp add: DAList.lookup.rep_eq map_of_eq_None_iff)

lemma keys_update:
  "set (map fst (DAList.impl_of (DAList.update k v al))) = insert k (set (map fst (DAList.impl_of al)))"
  by (simp add: DAList.update.rep_eq dom_update)

lemma keys_delete:
  "set (map fst (DAList.impl_of (DAList.delete k al))) = set (map fst (DAList.impl_of al)) - {k}"
  by (simp add: DAList.delete.rep_eq delete_keys)

lemma isSupported_available: "isSupported h \<Longrightarrow> available iOS_16_1 h"
  by (simp add: isSupported_def Module_isSupported_def split: if_splits)

lemma getAllActivities_supported:
  "isSupported h \<Longrightarrow> set (getAllActivities h s) = registryKeys s"
  using isSupported_available [of h]
  by (simp add: getAllActivities_def Module_getAllActivities_def registryKeys_def)

lemma getAllActivities_unsupported: "\<not> isSupported h \<Longrightarrow> getAllActivities h s = []"
  by (simp add: getAllActivities_def)

lemma createActivity_Inr:
  assumes "createActivity s re i t a c = Inr s'"
  shows "\<exists>act. act \<noteq> NotAnActivity \<and>
           activeActivities s' = DAList.update i act (activeActivities s) \<and>
           hostCalls s' = hostCalls s @ [Request act]"
  using assms
  by (auto simp: createActivity_def createCounterActivity_def createStatusActivity_def
        createProgressActivity_def request_def split: if_splits sum.splits option.splits)

lemma Module_startActivity_Inr:
  assumes "Module_startActivity h s u n re t a c = (Inr info, s')"
  shows "available iOS_16_1 h \<and> createActivity s re (uuidString u) t a c = Inr s' \<and>
         info = \<lparr>info_activityId = uuidString u, info_activityType = t, info_startTime = n\<rparr>"
  using assms
  by (auto simp: Module_startActivity_def Let_def split: if_splits sum.splits)

lemma Module_startActivity_Inl:
  assumes "Module_startActivity h s u n re t a c = (Inl e, s')"
  shows "s' = s"
  using assms
  by (auto simp: Module_startActivity_def Let_def split: if_splits sum.splits)

lemma startActivity_Inr:
  assumes "startActivity h s u n re k a c = (Inr info, s')"
  shows "isSupported h \<and>
         (\<exists>t a' c'. k = JString t \<and> t \<noteq> [] \<and> js_or a (JObject []) = JObject a' \<and>
             js_or c (JObject []) = JObject c' \<and>
             Module_startActivity h s u n re t a' c' = (Inr info, s'))"
  using assms
  by (auto simp: startActivity_def call_startActivity_def
        split: if_splits sum.splits prod.splits jsval.splits)

lemma startActivity_Inl:
  assumes "startActivity h s u n re k a c = (Inl e, s')"
  shows "s' = s"
  using assms
  by (auto simp: startActivity_def call_startActivity_def
        split: if_splits sum.splits prod.splits jsval.splits dest: Module_startActivity_Inl)

lemma startActivity_registry:
  assumes "startActivity h s u n re k a c = (Inr info, s')"
  shows "info_activityId info = uuidString u \<and>
         (\<exists>act. act \<noteq> NotAnActivity \<and>
            activeActivities s' = DAList.update (uuidString u) act (activeActivities s) \<and>
            hostCalls s' = hostCalls s @ [Request act])"
proof -
  from startActivity_Inr [OF assms] obtain t a' c'
    where m: "Module_startActivity h s u n re t a' c' = (Inr info, s')" by blast
  from Module_startActivity_Inr [OF m] createActivity_Inr show ?thesis
    by fastforce
qed


lemma endExistingActivity_found:
  "DAList.lookup (activeActivities s) i = Some act \<Longrightarrow>
   endExistingActivity s i p =
     Inr \<lparr>activeActivities = DAList.delete i (activeActivities s),
          hostCalls = hostCalls s @ [EndTask act p]\<rparr>"
  by (simp add: endExistingActivity_def spawn_def)

lemma endExistingActivity_missing:
  "DAList.lookup (activeActivities s) i = None \<Longrightarrow>
   endExistingActivity s i p = Inl (LiveActivity (notFound i))"
  by (simp add: endExistingActivity_def)

lemma Module_endActivity_found:
  "available iOS_16_1 h \<Longrightarrow> DAList.lookup (activeActivities s) i = Some act \<Longrightarrow>
   Module_endActivity h s i p =
     (Inr (), \<lparr>activeActivities = DAList.delete i (activeActivities s),
               hostCalls = hostCalls s @ [EndTask act (parseDismissalPolicy h p)]\<rparr>)"
  by (simp add: Module_endActivity_def endExistingActivity_found)

lemma Module_endActivity_missing:
  "available iOS_16_1 h \<Longrightarrow> DAList.lookup (activeActivities s) i = None \<Longrightarrow>
   Module_endActivity h s i p = (Inl (endFailed (''Activity not found: '' @ i)), s)"
  by (simp add: Module_endActivity_def endExistingActivity_missing)

lemma Module_endActivity_keys:
  "registryKeys (snd (Module_endActivity h s i p)) =
     (if available iOS_16_1 h then registryKeys s - {i} else registryKeys s)"
proof (cases "DAList.lookup (activeActivities s) i")
  case None
  then have "i \<notin> registryKeys s"
    by (simp add: registryKeys_def keys_lookup del: set_map)
  with None show ?thesis
    by (cases "available iOS_16_1 h")
       (simp_all add: Module_endActivity_missing, simp add: Module_endActivity_def)
next
  case (Some act)
  then show ?thesis
    by (cases "available iOS_16_1 h")
       (simp_all add: Module_endActivity_found registryKeys_def keys_delete del: set_map,
        simp add: Module_endActivity_def)
qed

lemma endActivity_found:
  "isSupported h \<Longrightarrow> i \<noteq> [] \<Longrightarrow> DAList.lookup (activeActivities s) i = Some act \<Longrightarrow>
   endActivity h s (JString i) p =
     (Inr (), \<lparr>activeActivities = DAList.delete i (activeActivities s),
               hostCalls = hostCalls s @
                 [EndTask act (parseDismissalPolicy h (case p of None \<Rightarrow> ''default'' | Some q \<Rightarrow> q))]\<rparr>)"
  using isSupported_available [of h]
  by (simp add: endActivity_def call_endActivity_def Module_endActivity_found)

lemma endActivity_missing:
  "isSupported h \<Longrightarrow> i \<noteq> [] \<Longrightarrow> DAList.lookup (activeActivities s) i = None \<Longrightarrow>
   endActivity h s (JString i) p =
     (Inl (ErrorFrom ''Failed to end activity: ''
        (Rejected (endFailed (''Activity not found: '' @ i)))), s)"
  using isSupported_available [of h]
  by (simp add: endActivity_def call_endActivity_def Module_endActivity_missing)

lemma endActivity_Inl:
  assumes "endActivity h s v p = (Inl e, s')"
  shows "s' = s"
  using assms
  by (auto simp: endActivity_def call_endActivity_def Module_endActivity_def Let_def
        split: if_splits sum.splits prod.splits jsval.splits)

lemma endActivity_Inr:
  assumes "endActivity h s v p = (Inr u, s')"
  shows "isSupported h \<and> (\<exists>i act. v = JString i \<and> i \<noteq> [] \<and>
           DAList.lookup (activeActivities s) i = Some act \<and>
           activeActivities s' = DAList.delete i (activeActivities s))"
  using assms
  by (auto simp: endActivity_def call_endActivity_def Module_endActivity_def Let_def
        endExistingActivity_def spawn_def
        split: if_splits sum.splits prod.splits jsval.splits option.splits)


lemma updateExistingActivity_Inr:
  assumes "updateExistingActivity s i c = Inr s'"
  shows "\<exists>act content. DAList.lookup (activeActivities s) i = Some act \<and>
           s' = s\<lparr>hostCalls := hostCalls s @ [UpdateTask act content]\<rparr>"
  using assms
  by (auto simp: updateExistingActivity_def spawn_def
        split: option.splits stored.splits sum.splits)

lemma Module_updateActivity_registry:
  "activeActivities (snd (Module_updateActivity h s i c)) = activeActivities s"
  by (auto simp: Module_updateActivity_def split: sum.splits dest!: updateExistingActivity_Inr)

lemma updateActivity_registry:
  "activeActivities (snd (updateActivity h s v c)) = activeActivities s"
proof -
  have "\<And>i d. activeActivities (snd (Module_updateActivity h s i d)) = activeActivities s"
    by (rule Module_updateActivity_registry)
  then show ?thesis
    by (auto simp: updateActivity_def call_updateActivity_def
          split: sum.splits prod.splits jsval.splits)
       (metis snd_conv)+
qed

lemma endActivity_keys:
  "isSupported h \<Longrightarrow> i \<noteq> [] \<Longrightarrow>
   registryKeys (snd (endActivity h s (JString i) p)) = registryKeys s - {i}"
proof (cases "DAList.lookup (activeActivities s) i")
  case None
  assume "isSupported h" "i \<noteq> []"
  moreover from None have "i \<notin> registryKeys s"
    by (simp add: registryKeys_def keys_lookup del: set_map)
  ultimately show ?thesis using None by (simp add: endActivity_missing)
next
  case (Some act)
  assume "isSupported h" "i \<noteq> []"
  then show ?thesis using Some
    by (simp add: endActivity_found registryKeys_def keys_delete del: set_map)
qed

lemma endActivity_empty_id: "snd (endActivity h s (JString []) p) = s"
  by (simp add: endActivity_def Let_def)

lemma endEach_keys:
  "isSupported h \<Longrightarrow>
   registryKeys (snd (endEach h p ids s)) = registryKeys s - (set ids - {[]})"
proof (induction ids arbitrary: s)
  case Nil
  then show ?case by simp
next
  case (Cons i ids)
  obtain r s1 where e: "endActivity h s (JString i) (Some p) = (r, s1)" by force
  obtain rs s2 where r: "endEach h p ids s1 = (rs, s2)" by force
  have k1: "registryKeys s1 = registryKeys s - ({i} - {[]})"
  proof (cases "i = []")
    case True
    with e endActivity_empty_id [of h s "Some p"] show ?thesis by simp
  next
    case False
    with e endActivity_keys [OF Cons.prems False, of s "Some p"] show ?thesis by simp
  qed
  from Cons.IH [OF Cons.prems, of s1] r have "registryKeys s2 = registryKeys s1 - (set ids - {[]})"
    by simp
  with k1 e r show ?case by auto
qed

lemma promiseAll_Nil: "promiseAll [] = Inr ()"
  by (simp add: promiseAll_def)

lemma promiseAll_fulfilled: "promiseAll (Inr u # rs) = promiseAll rs"
  by (simp add: promiseAll_def split: option.splits)

lemma endEach_succeeds:
  "isSupported h \<Longrightarrow> [] \<notin> set ids \<Longrightarrow> distinct ids \<Longrightarrow> set ids \<subseteq> registryKeys s \<Longrightarrow>
   promiseAll (fst (endEach h p ids s)) = Inr ()"
proof (induction ids arbitrary: s)
  case Nil
  then show ?case by (simp add: promiseAll_Nil)
next
  case (Cons i ids)
  from Cons.prems have i: "i \<noteq> []" "i \<in> registryKeys s" by auto
  then obtain act where a: "DAList.lookup (activeActivities s) i = Some act"
    by (auto simp: registryKeys_def keys_lookup simp del: set_map)
  define s1 where "s1 = snd (endActivity h s (JString i) (Some p))"
  have e: "endActivity h s (JString i) (Some p) = (Inr (), s1)"
    unfolding s1_def by (simp add: endActivity_found [OF Cons.prems(1) i(1) a])
  have "registryKeys s1 = registryKeys s - {i}"
    unfolding s1_def by (rule endActivity_keys [OF Cons.prems(1) i(1)])
  with Cons.prems have "set ids \<subseteq> registryKeys s1" by auto
  with Cons.IH [of s1] Cons.prems have "promiseAll (fst (endEach h p ids s1)) = Inr ()" by simp
  with e show ?case by (cases "endEach h p ids s1") (simp add: promiseAll_fulfilled)
qed

lemma endAllActivities_unsupported: "\<not> isSupported h \<Longrightarrow> endAllActivities h s p = (Inr (), s)"
  by (simp add: endAllActivities_def Let_def)

lemma endAllActivities_keys:
  assumes "isSupported h"
  shows "registryKeys (snd (endAllActivities h s p)) = registryKeys s \<inter> {[]}"
proof -
  let ?q = "case p of None \<Rightarrow> ''default'' | Some q \<Rightarrow> q"
  have "snd (endAllActivities h s p) = snd (endEach h ?q (getAllActivities h s) s)"
    using assms by (simp add: endAllActivities_def Let_def split: prod.splits sum.splits)
  with endEach_keys [OF assms, of ?q "getAllActivities h s" s]
       getAllActivities_supported [OF assms, of s]
  show ?thesis by auto
qed

lemma endAllActivities_succeeds:
  assumes "isSupported h" and "[] \<notin> registryKeys s"
  shows "fst (endAllActivities h s p) = Inr ()"
proof -
  let ?q = "case p of None \<Rightarrow> ''default'' | Some q \<Rightarrow> q"
  have d: "distinct (getAllActivities h s)"
    using isSupported_available [OF assms(1)]
    by (simp add: getAllActivities_def Module_getAllActivities_def assms(1))
  have "promiseAll (fst (endEach h ?q (getAllActivities h s) s)) = Inr ()"
    using assms d getAllActivities_supported [OF assms(1), of s]
    by (intro endEach_succeeds) simp_all
  then show ?thesis
    using assms
    by (cases "endEach h ?q (getAllActivities h s) s")
       (simp add: endAllActivities_def Let_def)
qed


lemma list_all_AList_update:
  "list_all P al \<Longrightarrow> P (k, v) \<Longrightarrow> list_all P (AList.update k v al)"
  by (induction al) auto

lemma list_all_AList_delete: "list_all P al \<Longrightarrow> list_all P (AList.delete k al)"
  by (induction al) auto

lemma wellFormed_initial: "wellFormed initial"
  by (simp add: wellFormed_def initial_def DAList.empty.rep_eq)

lemma wellFormed_update:
  "wellFormed s \<Longrightarrow> k \<noteq> [] \<Longrightarrow> v \<noteq> NotAnActivity \<Longrightarrow>
   activeActivities s' = DAList.update k v (activeActivities s) \<Longrightarrow> wellFormed s'"
  by (simp add: wellFormed_def DAList.update.rep_eq list_all_AList_update)

lemma wellFormed_delete:
  "wellFormed s \<Longrightarrow> activeActivities s' = DAList.delete k (activeActivities s) \<Longrightarrow> wellFormed s'"
  by (simp add: wellFormed_def DAList.delete.rep_eq list_all_AList_delete)

lemma wellFormed_same:
  "wellFormed s \<Longrightarrow> activeActivities s' = activeActivities s \<Longrightarrow> wellFormed s'"
  by (simp add: wellFormed_def)

lemma wellFormed_Module_startActivity:
  assumes "wellFormed s"
  shows "wellFormed (snd (Module_startActivity h s u n re t a c))"
proof (cases "Module_startActivity h s u n re t a c")
  case (Pair r s')
  show ?thesis
  proof (cases r)
    case (Inl e)
    with Pair Module_startActivity_Inl assms show ?thesis by fastforce
  next
    case (Inr info)
    with Pair Module_startActivity_Inr [of h s u n re t a c info s']
    have "createActivity s re (uuidString u) t a c = Inr s'" by simp
    from createActivity_Inr [OF this] obtain act where
      "act \<noteq> NotAnActivity" "activeActivities s' = DAList.update (uuidString u) act (activeActivities s)"
      by blast
    with wellFormed_update [OF assms uuidString_nonempty] Pair show ?thesis by simp
  qed
qed

lemma wellFormed_Module_updateActivity:
  "wellFormed s \<Longrightarrow> wellFormed (snd (Module_updateActivity h s i c))"
  by (rule wellFormed_same [OF _ Module_updateActivity_registry])

lemma Module_endActivity_registry:
  "activeActivities (snd (Module_endActivity h s i p)) = activeActivities s \<or>
   activeActivities (snd (Module_endActivity h s i p)) = DAList.delete i (activeActivities s)"
  by (auto simp: Module_endActivity_def Let_def endExistingActivity_def spawn_def
        split: sum.splits option.splits)

lemma wellFormed_Module_endActivity:
  "wellFormed s \<Longrightarrow> wellFormed (snd (Module_endActivity h s i p))"
  using Module_endActivity_registry [of h s i p] wellFormed_same wellFormed_delete by blast

lemma reachable_wellFormed: "reachable h s \<Longrightarrow> wellFormed s"
  by (induction rule: reachable.induct)
     (simp_all add: wellFormed_initial wellFormed_Module_startActivity
        wellFormed_Module_updateActivity wellFormed_Module_endActivity)

lemma wellFormed_no_empty_key: "wellFormed s \<Longrightarrow> [] \<notin> registryKeys s"
  by (auto simp: wellFormed_def registryKeys_def list_all_iff)

lemma wellFormed_lookup:
  "wellFormed s \<Longrightarrow> DAList.lookup (activeActivities s) i = Some act \<Longrightarrow> act \<noteq> NotAnActivity"
  by (auto simp: wellFormed_def list_all_iff DAList.lookup.rep_eq dest!: map_of_SomeD)

text \<open>Every state a facade call returns is one the native module can reach.\<close>

lemma reachable_startActivity:
  "reachable h s \<Longrightarrow> reachable h (snd (startActivity h s u n re k a c))"
proof -
  assume r: "reachable h s"
  have "snd (startActivity h s u n re k a c) = s \<or>
        (\<exists>t a' c'. snd (startActivity h s u n re k a c) = snd (Module_startActivity h s u n re t a' c'))"
    by (auto simp: startActivity_def call_startActivity_def
          split: sum.splits prod.splits jsval.splits) (metis snd_conv)+
  with r reachable_start [OF r] show ?thesis by metis
qed

lemma reachable_updateActivity:
  "reachable h s \<Longrightarrow> reachable h (snd (updateActivity h s v c))"
proof -
  assume r: "reachable h s"
  have "snd (updateActivity h s v c) = s \<or>
        (\<exists>i c'. snd (updateActivity h s v c) = snd (Module_updateActivity h s i c'))"
    by (auto simp: updateActivity_def call_updateActivity_def
          split: sum.splits prod.splits jsval.splits) (metis snd_conv)+
  with r reachable_update [OF r] show ?thesis by metis
qed

lemma reachable_endActivity:
  "reachable h s \<Longrightarrow> reachable h (snd (endActivity h s v p))"
proof -
  assume r: "reachable h s"
  have "snd (endActivity h s v p) = s \<or>
        (\<exists>i q. snd (endActivity h s v p) = snd (Module_endActivity h s i q))"
    by (auto simp: endActivity_def call_endActivity_def Let_def
          split: sum.splits prod.splits jsval.splits) (metis snd_conv)+
  with r reachable_end [OF r] show ?thesis by metis
qed

lemma endEach_Cons_snd:
  "snd (endEach h p (i # ids) s) =
     snd (endEach h p ids (snd (endActivity h s (JString i) (Some p))))"
  by (simp split: prod.splits)

lemma reachable_endEach:
  "reachable h s \<Longrightarrow> reachable h (snd (endEach h p ids s))"
proof (induction ids arbitrary: s)
  case Nil
  then show ?case by simp
next
  case (Cons i ids)
  from reachable_endActivity [OF Cons.prems, of "JString i" "Some p"]
  have "reachable h (snd (endEach h p ids (snd (endActivity h s (JString i) (Some p)))))"
    by (rule Cons.IH)
  then show ?case by (simp only: endEach_Cons_snd)
qed

lemma reachable_endAllActivities:
  "reachable h s \<Longrightarrow> reachable h (snd (endAllActivities h s p))"
proof -
  assume r: "reachable h s"
  let ?q = "case p of None \<Rightarrow> ''default'' | Some q \<Rightarrow> q"
  have "snd (endAllActivities h s p) = s \<or>
        snd (endAllActivities h s p) = snd (endEach h ?q (getAllActivities h s) s)"
    by (simp add: endAllActivities_def Let_def split: prod.splits sum.splits)
  with r reachable_endEach [OF r] show ?thesis by metis
qed


lemma reachable_perform: "reachable h s \<Longrightarrow> reachable h (snd (perform h s c))"
proof (cases c)
  case (Start u n re k a d)
  assume "reachable h s"
  from reachable_startActivity [OF this, of u n re k a d] Start show ?thesis
    by (auto split: prod.splits sum.splits)
next
  case (Update v d)
  assume "reachable h s"
  from reachable_updateActivity [OF this, of v d] Update show ?thesis
    by (auto split: prod.splits sum.splits)
next
  case (End v p)
  assume "reachable h s"
  from reachable_endActivity [OF this, of v p] End show ?thesis
    by (auto split: prod.splits sum.splits)
next
  case (EndAll p)
  assume "reachable h s"
  from reachable_endAllActivities [OF this, of p] EndAll show ?thesis
    by (auto split: prod.splits sum.splits)
qed

lemma perform_live:
  assumes "wellFormed s" and "set (getAllActivities h s) = L" and "perform h s c = (out, s')"
  shows "set (getAllActivities h s') = liveStep L (c, out)"
proof (cases "isSupported h")
  case False
  then have e: "L = {}" "set (getAllActivities h s') = {}"
    using assms(2) by (simp_all add: getAllActivities_unsupported)
  show ?thesis
  proof (cases c)
    case (Start u n re k a d)
    with False assms(3) e show ?thesis
      by (auto simp: startActivity_def)
  next
    case (Update v d)
    with e show ?thesis by (cases out) simp_all
  next
    case (End v p)
    with False assms(3) e show ?thesis
      by (auto simp: endActivity_def Let_def)
  next
    case (EndAll p)
    with e show ?thesis by (cases out) simp_all
  qed
next
  case True
  note sup = getAllActivities_supported [OF True]
  from assms(2) sup have L: "L = registryKeys s" by simp
  show ?thesis
  proof (cases c)
    case (Start u n re k a d)
    show ?thesis
    proof (cases "startActivity h s u n re k a d")
      case (Pair r s1)
      show ?thesis
      proof (cases r)
        case (Inl e)
        with Pair Start assms(3) startActivity_Inl [of h s u n re k a d e s1] assms(2)
        show ?thesis by auto
      next
        case (Inr info)
        with Pair startActivity_registry [of h s u n re k a d info s1]
        obtain act where "info_activityId info = uuidString u"
          "activeActivities s1 = DAList.update (uuidString u) act (activeActivities s)"
          by auto
        then have "registryKeys s1 = insert (info_activityId info) (registryKeys s)"
          by (simp add: registryKeys_def keys_update del: set_map)
        with Pair Inr Start assms(3) L sup show ?thesis by auto
      qed
    qed
  next
    case (Update v d)
    from updateActivity_registry [of h s v d] Update assms(3)
    have "activeActivities s' = activeActivities s"
      by (auto split: prod.splits sum.splits)
    then have "registryKeys s' = registryKeys s" by (simp add: registryKeys_def)
    with Update L sup show ?thesis by (cases out) simp_all
  next
    case (End v p)
    show ?thesis
    proof (cases "endActivity h s v p")
      case (Pair r s1)
      show ?thesis
      proof (cases r)
        case (Inl e)
        with Pair End assms(3) endActivity_Inl [of h s v p e s1] assms(2)
        show ?thesis by auto
      next
        case (Inr u)
        with Pair endActivity_Inr [of h s v p u s1]
        obtain i where i: "v = JString i" "i \<noteq> []" by auto
        with endActivity_keys [OF True i(2), of s p] Pair
        have "registryKeys s1 = registryKeys s - {i}" by simp
        with Pair Inr End assms(3) L sup i show ?thesis by auto
      qed
    qed
  next
    case (EndAll p)
    from wellFormed_no_empty_key [OF assms(1)] have n: "[] \<notin> registryKeys s" .
    from endAllActivities_succeeds [OF True n, of p] endAllActivities_keys [OF True, of s p] n
    have "fst (endAllActivities h s p) = Inr ()" "registryKeys (snd (endAllActivities h s p)) = {}"
      by auto
    with EndAll assms(3) sup show ?thesis
      by (cases "endAllActivities h s p") auto
  qed
qed

lemma run_live:
  "reachable h s \<Longrightarrow> set (getAllActivities h s) = L \<Longrightarrow>
   set (getAllActivities h (snd (run h s cs))) = foldl liveStep L (fst (run h s cs))"
proof (induction cs arbitrary: s L)
  case Nil
  then show ?case by simp
next
  case (Cons c cs)
  obtain out s1 where p: "perform h s c = (out, s1)" by force
  from reachable_perform [OF Cons.prems(1), of c] p have r1: "reachable h s1" by simp
  from perform_live [OF reachable_wellFormed [OF Cons.prems(1)] Cons.prems(2) p]
  have "set (getAllActivities h s1) = liveStep L (c, out)" .
  from Cons.IH [OF r1 this] p show ?case
    by (cases "run h s1 cs") simp
qed


lemma Module_endActivity_removes:
  "i \<notin> set (Module_getAllActivities h (snd (Module_endActivity h s i p)))"
proof (cases "available iOS_16_1 h")
  case True
  with Module_endActivity_keys [of h s i p] show ?thesis
    by (simp add: Module_getAllActivities_def registryKeys_def del: set_map)
next
  case False
  then show ?thesis by (simp add: Module_getAllActivities_def)
qed

lemma run_initial_live:
  "set (getAllActivities h (snd (run h initial calls))) = liveAfter (fst (run h initial calls))"
proof -
  have "set (getAllActivities h initial) = {}"
    by (simp add: getAllActivities_def Module_getAllActivities_def initial_def DAList.empty.rep_eq)
  from run_live [OF reachable_initial this] show ?thesis by (simp add: liveAfter_def)
qed

lemma started_then_ended:
  assumes "startActivity h s uuid now requestError activityType attributes contentState = (Inr info, s1)"
  shows "info_activityId info \<in> set (getAllActivities h s1) \<and>
         (\<exists>act. DAList.lookup (activeActivities s1) (info_activityId info) = Some act \<and>
            endActivity h s1 (JString (info_activityId info)) p =
              (Inr (), \<lparr>activeActivities = DAList.delete (info_activityId info) (activeActivities s1),
                        hostCalls = hostCalls s1 @
                          [EndTask act (parseDismissalPolicy h
                             (case p of None \<Rightarrow> ''default'' | Some q \<Rightarrow> q))]\<rparr>)) \<and>
         info_activityId info \<notin>
           set (getAllActivities h (snd (endActivity h s1 (JString (info_activityId info)) p)))"
proof -
  from startActivity_Inr [OF assms] have sup: "isSupported h" by simp
  from startActivity_registry [OF assms] obtain act where
    i: "info_activityId info = uuidString uuid" and
    a: "activeActivities s1 = DAList.update (uuidString uuid) act (activeActivities s)"
    by blast
  from a have l: "DAList.lookup (activeActivities s1) (uuidString uuid) = Some act" by simp
  from a have k: "uuidString uuid \<in> registryKeys s1"
    by (simp add: registryKeys_def keys_update del: set_map)
  from endActivity_keys [of h "uuidString uuid" s1 p, OF sup uuidString_nonempty]
  have "uuidString uuid \<notin> registryKeys (snd (endActivity h s1 (JString (uuidString uuid)) p))"
    by simp
  with i l k endActivity_found [OF sup uuidString_nonempty l, of p]
       getAllActivities_supported [OF sup]
  show ?thesis by simp
qed

lemma isSupported_iPhone: "isSupported (iPhone iOS_16_1)" "available iOS_16_1 (iPhone iOS_16_1)"
  by (simp_all add: isSupported_def Module_isSupported_def available_def iPhone_def iOS_16_1_def)

lemma start_counter_example:
  "startActivity (iPhone iOS_16_1) initial 0 0 None (JString ''CounterActivity'')
     (JObject [(''title'', AnyString ''T'')]) (JObject [(''value'', AnyInt 10)]) =
   (Inr \<lparr>info_activityId = uuidString 0, info_activityType = ''CounterActivity'',
         info_startTime = 0\<rparr>, counterStarted)"
  by (simp add: startActivity_def isSupported_iPhone call_startActivity_def js_or_def
        Module_startActivity_def Let_def createActivity_def createCounterActivity_def
        parseCounterAttributes_def parseCounterContent_def request_def initial_def
        counterStarted_def counterT_def)


lemma not_supported_android: "\<not> isSupported android"
  by (simp add: isSupported_def android_def)

lemma createActivity_unknown:
  "activityType \<notin> {''CounterActivity'', ''StatusActivity'', ''ProgressActivity''} \<Longrightarrow>
   createActivity s re i activityType a c = Inl (LiveActivity (unknownType activityType))"
  by (simp add: createActivity_def)

lemma updateExistingActivity_missing:
  "DAList.lookup (activeActivities s) i = None \<Longrightarrow>
   updateExistingActivity s i c = Inl (LiveActivity (notFound i))"
  by (simp add: updateExistingActivity_def)

lemma registryKeys_lookup: "i \<in> registryKeys s \<longleftrightarrow> DAList.lookup (activeActivities s) i \<noteq> None"
  by (simp add: registryKeys_def keys_lookup del: set_map)

lemma parseDismissalPolicy_after:
  "\<not> available iOS_16_2 h \<Longrightarrow> lowercased p = ''after'' \<Longrightarrow>
   parseDismissalPolicy h p = policy_default"
  by (simp add: parseDismissalPolicy_def)

lemma parseDismissalPolicy_default: "parseDismissalPolicy h ''default'' = policy_default"
  by (simp add: parseDismissalPolicy_def lowercased_def lowercaseChar_def)

lemma lowercased_after: "lowercased ''after'' = ''after''"
  by (simp add: lowercased_def lowercaseChar_def)

lemma Module_endActivity_policy:
  "parseDismissalPolicy h p = parseDismissalPolicy h q \<Longrightarrow>
   Module_endActivity h s i p = Module_endActivity h s i q"
  by (simp add: Module_endActivity_def)

lemma endActivity_policy:
  "parseDismissalPolicy h p = parseDismissalPolicy h ''default'' \<Longrightarrow>
   endActivity h s v (Some p) = endActivity h s v (Some ''default'') \<and>
   endActivity h s v (Some p) = endActivity h s v None"
  by (cases v) (simp_all add: endActivity_def call_endActivity_def Module_endActivity_policy [of h p "''default''"])

lemma endEach_policy:
  "parseDismissalPolicy h p = parseDismissalPolicy h ''default'' \<Longrightarrow>
   endEach h p ids s = endEach h ''default'' ids s"
  by (induction ids arbitrary: s)
     (simp_all add: endActivity_def call_endActivity_def Module_endActivity_policy [of h p "''default''"])

lemma endAllActivities_policy:
  "parseDismissalPolicy h p = parseDismissalPolicy h ''default'' \<Longrightarrow>
   endAllActivities h s (Some p) = endAllActivities h s None"
  by (simp add: endAllActivities_def endEach_policy [of h p])

lemma js_or_falsy: "\<not> truthy v \<Longrightarrow> js_or v w = w"
  by (simp add: js_or_def)

lemma start_counter_without_title:
  "isSupported h \<Longrightarrow> asString (map_of a ''title'') = None \<Longrightarrow>
   startActivity h s u n re (JString ''CounterActivity'') (JObject a) (JObject c) =
     (Inl (ErrorFrom ''Failed to start activity: ''
        (Rejected (startFailed ''Invalid attributes: Missing 'title' for CounterActivity''))), s)"
  using isSupported_available [of h]
  by (simp add: startActivity_def call_startActivity_def js_or_def Module_startActivity_def
        createActivity_def createCounterActivity_def parseCounterAttributes_def)

lemma update_counter_without_value:
  "isSupported h \<Longrightarrow> i \<noteq> [] \<Longrightarrow>
   DAList.lookup (activeActivities s) i = Some (CounterActivity at ct) \<Longrightarrow>
   asInt (map_of c ''value'') = None \<Longrightarrow>
   updateActivity h s (JString i) (JObject c) =
     (Inl (ErrorFrom ''Failed to update activity: ''
        (Rejected (updateFailed ''Invalid content: Missing 'value' for CounterActivity''))), s)"
  using isSupported_available [of h]
  by (simp add: updateActivity_def call_updateActivity_def js_or_def Module_updateActivity_def
        updateExistingActivity_def parseCounterContent_def)

lemma startActivity_falsy_records:
  "\<not> truthy a \<Longrightarrow> \<not> truthy c \<Longrightarrow>
   startActivity h s u n re k a c = startActivity h s u n re k (JObject []) (JObject [])"
  by (simp add: startActivity_def js_or_def)

lemma updateActivity_falsy_record:
  "\<not> truthy c \<Longrightarrow> updateActivity h s v c = updateActivity h s v (JObject [])"
  by (simp add: updateActivity_def js_or_def)

lemma create_counter_without_title:
  "asString (map_of a ''title'') = None \<Longrightarrow>
   createActivity s re i ''CounterActivity'' a c =
     Inl (LiveActivity (invalidAttributes ''Missing 'title' for CounterActivity''))"
  by (simp add: createActivity_def createCounterActivity_def parseCounterAttributes_def)

lemma create_status_without_status:
  "asString (map_of a ''identifier'') \<noteq> None \<Longrightarrow> asString (map_of a ''title'') \<noteq> None \<Longrightarrow>
   asString (map_of c ''status'') = None \<Longrightarrow>
   createActivity s re i ''StatusActivity'' a c =
     Inl (LiveActivity (invalidContent ''Missing 'status' for StatusActivity''))"
  by (auto simp: createActivity_def createStatusActivity_def parseStatusAttributes_def
        parseStatusContent_def)

lemma startActivity_create_error:
  "isSupported h \<Longrightarrow> k \<noteq> [] \<Longrightarrow> createActivity s re (uuidString u) k a c = Inl e \<Longrightarrow>
   startActivity h s u n re (JString k) (JObject a) (JObject c) =
     (Inl (ErrorFrom ''Failed to start activity: ''
        (Rejected (startFailed (localizedDescription e)))), s)"
  using isSupported_available [of h]
  by (simp add: startActivity_def call_startActivity_def js_or_def Module_startActivity_def)

lemma updateExistingActivity_dispatch:
  "DAList.lookup (activeActivities s) i = Some act \<Longrightarrow>
   updateExistingActivity s i d =
     (case resolvedKind act of
        None \<Rightarrow> Inl (LiveActivity (unknownType (''Unknown activity type for ID: '' @ i)))
      | Some k \<Rightarrow>
         (case contentParser k d of
            Inl e \<Rightarrow> Inl e
          | Inr content \<Rightarrow> Inr (spawn (UpdateTask act content) s)))"
  by (cases act) (simp_all add: updateExistingActivity_def contentParser_def split: sum.splits)

lemma contentParser_error:
  "contentParser k d = Inl e \<Longrightarrow> \<exists>m. e = LiveActivity (invalidContent m)"
  by (auto simp: contentParser_def parseCounterContent_def parseStatusContent_def
        parseProgressContent_def split: if_splits option.splits)

lemma hasRequiredContent_parses:
  "hasRequiredContent act d \<Longrightarrow>
   \<exists>k content. resolvedKind act = Some k \<and> contentParser k d = Inr content"
  by (cases act)
     (auto simp: contentParser_def parseCounterContent_def parseStatusContent_def
        parseProgressContent_def)

lemma createActivity_kind:
  assumes "createActivity s re i k a c = Inr s1"
  shows "\<exists>act. DAList.lookup (activeActivities s1) i = Some act \<and> resolvedKind act = Some k"
  using assms
  by (auto simp: createActivity_def createCounterActivity_def createStatusActivity_def
        createProgressActivity_def request_def split: if_splits sum.splits option.splits)

lemma updateExistingActivity_never_unknownType:
  assumes "wellFormed s"
  shows "updateExistingActivity s i d \<noteq> Inl (LiveActivity (unknownType m))"
proof (cases "DAList.lookup (activeActivities s) i")
  case None
  then show ?thesis by (simp add: updateExistingActivity_def)
next
  case (Some act)
  with wellFormed_lookup [OF assms] have "act \<noteq> NotAnActivity" by simp
  then obtain k where k: "resolvedKind act = Some k" by (cases act) simp_all
  show ?thesis
  proof (cases "contentParser k d")
    case (Inl e)
    with contentParser_error obtain m' where "e = LiveActivity (invalidContent m')" by blast
    with Inl k show ?thesis by (simp add: updateExistingActivity_dispatch [OF Some])
  next
    case (Inr content)
    with k show ?thesis by (simp add: updateExistingActivity_dispatch [OF Some])
  qed
qed

lemma Module_endActivity_other:
  "j \<noteq> i \<Longrightarrow>
   DAList.lookup (activeActivities (snd (Module_endActivity h s j p))) i =
     DAList.lookup (activeActivities s) i"
  using Module_endActivity_registry [of h s j p] by auto

lemma Module_startActivity_other:
  assumes "uuidString u \<noteq> i"
  shows "DAList.lookup (activeActivities (snd (Module_startActivity h s u n re k a c))) i =
     DAList.lookup (activeActivities s) i"
proof (cases "Module_startActivity h s u n re k a c")
  case (Pair r s1)
  show ?thesis
  proof (cases r)
    case (Inl e)
    with Pair Module_startActivity_Inl [of h s u n re k a c e s1] show ?thesis by simp
  next
    case (Inr info)
    with Pair Module_startActivity_Inr [of h s u n re k a c info s1]
    have "createActivity s re (uuidString u) k a c = Inr s1" by simp
    from createActivity_Inr [OF this] assms Pair show ?thesis by auto
  qed
qed

lemma updateActivity_by_kind:
  assumes "isSupported h" and "i \<noteq> []"
    and "DAList.lookup (activeActivities s) i = Some act"
    and "resolvedKind act = Some k" and "contentParser k d = Inr content"
  shows "updateActivity h s (JString i) (JObject d) =
           (Inr (), s\<lparr>hostCalls := hostCalls s @ [UpdateTask act content]\<rparr>)"
  using assms isSupported_available [of h]
  by (simp add: updateActivity_def call_updateActivity_def js_or_def Module_updateActivity_def
        updateExistingActivity_dispatch spawn_def)

lemma created_dispatch:
  assumes "createActivity s re i k a c = Inr s1"
  shows "\<exists>act. DAList.lookup (activeActivities s1) i = Some act \<and> resolvedKind act = Some k \<and>
           updateExistingActivity s1 i d =
             (case contentParser k d of
                Inl e \<Rightarrow> Inl e
              | Inr content \<Rightarrow> Inr (spawn (UpdateTask act content) s1)) \<and>
           endExistingActivity s1 i p =
             Inr ((spawn (EndTask act p) s1)
                    \<lparr>activeActivities := DAList.delete i (activeActivities s1)\<rparr>)"
proof -
  from createActivity_kind [OF assms] obtain act where
    a: "DAList.lookup (activeActivities s1) i = Some act" "resolvedKind act = Some k" by blast
  then show ?thesis
    by (simp add: updateExistingActivity_dispatch [OF a(1)] endExistingActivity_def)
qed

lemma reachable_resolves:
  assumes "reachable h s"
  shows "updateExistingActivity s i d \<noteq> Inl (LiveActivity (unknownType m)) \<and>
         (DAList.lookup (activeActivities s) i = Some act \<longrightarrow> resolvedKind act \<noteq> None)"
proof -
  note w = reachable_wellFormed [OF assms]
  have "resolvedKind act \<noteq> None" if "DAList.lookup (activeActivities s) i = Some act"
    using wellFormed_lookup [OF w that] by (cases act) simp_all
  with updateExistingActivity_never_unknownType [OF w] show ?thesis by blast
qed

lemma reachable_counterStarted: "reachable (iPhone iOS_16_1) counterStarted"
proof -
  have "snd (Module_startActivity (iPhone iOS_16_1) initial 0 0 None ''CounterActivity''
          [(''title'', AnyString ''T'')] [(''value'', AnyInt 10)]) = counterStarted"
    by (simp add: isSupported_iPhone Module_startActivity_def Let_def createActivity_def
          createCounterActivity_def parseCounterAttributes_def parseCounterContent_def
          request_def initial_def counterStarted_def counterT_def)
  with reachable_start [OF reachable_initial, of "iPhone iOS_16_1" 0 0 None "''CounterActivity''"
         "[(''title'', AnyString ''T'')]" "[(''value'', AnyInt 10)]"]
  show ?thesis by simp
qed

lemma create_counter_example:
  "createActivity initial None (uuidString 0) ''CounterActivity''
     [(''title'', AnyString ''T'')] [(''value'', AnyInt 10)] = Inr counterStarted"
  by (simp add: createActivity_def createCounterActivity_def parseCounterAttributes_def
        parseCounterContent_def request_def initial_def counterStarted_def counterT_def)

lemma getAllActivities_withEmptyId:
  "getAllActivities (iPhone iOS_16_1) withEmptyId = [uuidString 0, []]"
  using uuidString_nonempty [of 0]
  by (simp add: getAllActivities_def Module_getAllActivities_def isSupported_iPhone
        withEmptyId_def DAList.update.rep_eq DAList.empty.rep_eq)

lemma endAllActivities_withEmptyId:
  "fst (endAllActivities (iPhone iOS_16_1) withEmptyId None) =
     Inl (ErrorFrom ''Failed to end all activities: ''
            (Error ''activityId must be a non-empty string''))"
proof -
  have l: "DAList.lookup (activeActivities withEmptyId) (uuidString 0) = Some counterT"
    using uuidString_nonempty [of 0] by (simp add: withEmptyId_def)
  have e: "endActivity (iPhone iOS_16_1) s (JString []) (Some ''default'') =
      (Inl (Error ''activityId must be a non-empty string''), s)" for s
    by (simp add: endActivity_def isSupported_iPhone)
  show ?thesis
    by (simp add: endAllActivities_def isSupported_iPhone getAllActivities_withEmptyId
          endActivity_found [OF isSupported_iPhone(1) uuidString_nonempty l] e promiseAll_def)
qed

lemma endEach_hostCalls:
  assumes "isSupported h"
  shows "distinct (map fst xs) \<Longrightarrow>
         (\<forall>e \<in> set xs. DAList.lookup (activeActivities s) (fst e) = Some (snd e)) \<Longrightarrow>
         hostCalls (snd (endEach h p (map fst xs) s)) =
           hostCalls s @ map (\<lambda>e. EndTask (snd e) (parseDismissalPolicy h p))
                            (filter (\<lambda>e. fst e \<noteq> []) xs)"
proof (induction xs arbitrary: s)
  case Nil
  then show ?case by simp
next
  case (Cons x xs)
  let ?s1 = "snd (endActivity h s (JString (fst x)) (Some p))"
  have step: "snd (endEach h p (map fst (x # xs)) s) = snd (endEach h p (map fst xs) ?s1)"
    by (simp only: list.map endEach_Cons_snd)
  from Cons.prems(1) have d: "distinct (map fst xs)" by simp
  show ?case
  proof (cases "fst x = []")
    case True
    then have s1: "?s1 = s" by (simp add: endActivity_empty_id)
    from Cons.prems(2) have "\<forall>e \<in> set xs. DAList.lookup (activeActivities s) (fst e) = Some (snd e)"
      by simp
    from Cons.IH [OF d this] step s1 True show ?thesis by simp
  next
    case False
    from Cons.prems(2) have l: "DAList.lookup (activeActivities s) (fst x) = Some (snd x)" by simp
    have s1: "?s1 = \<lparr>activeActivities = DAList.delete (fst x) (activeActivities s),
                      hostCalls = hostCalls s @ [EndTask (snd x) (parseDismissalPolicy h p)]\<rparr>"
      by (simp add: endActivity_found [OF assms False l])
    have "\<forall>e \<in> set xs. DAList.lookup (activeActivities ?s1) (fst e) = Some (snd e)"
    proof
      fix e assume e: "e \<in> set xs"
      from Cons.prems(1) have "fst x \<notin> fst ` set xs" by simp
      with e have "fst e \<noteq> fst x" by (metis imageI)
      with e Cons.prems(2) show "DAList.lookup (activeActivities ?s1) (fst e) = Some (snd e)"
        by (simp add: s1)
    qed
    from Cons.IH [OF d this] step False show ?thesis by (simp add: s1)
  qed
qed

lemma endAllActivities_hostCalls:
  assumes "isSupported h"
  shows "hostCalls (snd (endAllActivities h s p)) =
           hostCalls s @
             map (\<lambda>e. EndTask (snd e)
                    (parseDismissalPolicy h (case p of None \<Rightarrow> ''default'' | Some q \<Rightarrow> q)))
                 (filter (\<lambda>e. fst e \<noteq> []) (DAList.impl_of (activeActivities s)))"
proof -
  let ?q = "case p of None \<Rightarrow> ''default'' | Some q \<Rightarrow> q"
  let ?xs = "DAList.impl_of (activeActivities s)"
  have g: "getAllActivities h s = map fst ?xs"
    using assms isSupported_available [OF assms]
    by (simp add: getAllActivities_def Module_getAllActivities_def)
  have "snd (endAllActivities h s p) = snd (endEach h ?q (getAllActivities h s) s)"
    using assms by (simp add: endAllActivities_def Let_def split: prod.splits sum.splits)
  moreover have "\<forall>e \<in> set ?xs. DAList.lookup (activeActivities s) (fst e) = Some (snd e)"
    by (simp add: DAList.lookup.rep_eq)
  ultimately show ?thesis
    using endEach_hostCalls [OF assms, of ?xs s ?q] g by simp
qed

lemma wellFormed_filter:
  "wellFormed s \<Longrightarrow>
   filter (\<lambda>e. fst e \<noteq> []) (DAList.impl_of (activeActivities s)) =
     DAList.impl_of (activeActivities s)"
  by (auto simp: wellFormed_def list_all_iff filter_id_conv)

lemma startActivity_falsy_attributes:
  "\<not> truthy a \<Longrightarrow>
   startActivity h s u n re k a c = startActivity h s u n re k (JObject []) c"
  by (simp add: startActivity_def js_or_def)

lemma startActivity_falsy_content:
  "\<not> truthy c \<Longrightarrow>
   startActivity h s u n re k a c = startActivity h s u n re k a (JObject [])"
  by (simp add: startActivity_def js_or_def)

lemma start_counter_without_value:
  "isSupported h \<Longrightarrow> asString (map_of a ''title'') \<noteq> None \<Longrightarrow>
   asInt (map_of c ''value'') = None \<Longrightarrow>
   startActivity h s u n re (JString ''CounterActivity'') (JObject a) (JObject c) =
     (Inl (ErrorFrom ''Failed to start activity: ''
        (Rejected (startFailed ''Invalid content: Missing 'value' for CounterActivity''))), s)"
  using isSupported_available [of h]
  by (auto simp: startActivity_def call_startActivity_def js_or_def Module_startActivity_def
        createActivity_def createCounterActivity_def parseCounterAttributes_def
        parseCounterContent_def)

section \<open>The claims\<close>

text \<open>
  C1. When \<open>startActivity\<close> succeeds, the id it returns is among the ids
  \<open>getAllActivities\<close> returns next. \<open>endActivity\<close> on that id then succeeds for every
  dismissal policy, and the id is no longer among them. The state \<open>endActivity\<close> returns
  has the entry removed while the teardown is only a spawned task: the removal waits for
  nothing. After the native \<open>endActivity\<close> an id is never in the registry, whatever the
  call returned. After any sequence of facade calls from the empty registry, the ids of
  the registry are exactly the live instances: those a start returned and no later end
  succeeded on.
\<close>

theorem registry_holds_live_instances:
  "(startActivity h s uuid now requestError activityType attributes contentState = (Inr info, s1) \<longrightarrow>
      info_activityId info \<in> set (getAllActivities h s1) \<and>
      (\<exists>act. DAList.lookup (activeActivities s1) (info_activityId info) = Some act \<and>
         endActivity h s1 (JString (info_activityId info)) p =
           (Inr (), \<lparr>activeActivities = DAList.delete (info_activityId info) (activeActivities s1),
                     hostCalls = hostCalls s1 @
                       [EndTask act (parseDismissalPolicy h
                          (case p of None \<Rightarrow> ''default'' | Some q \<Rightarrow> q))]\<rparr>)) \<and>
      info_activityId info \<notin>
        set (getAllActivities h (snd (endActivity h s1 (JString (info_activityId info)) p)))) \<and>
   i \<notin> set (Module_getAllActivities h (snd (Module_endActivity h s i policy))) \<and>
   set (getAllActivities h (snd (run h initial calls))) = liveAfter (fst (run h initial calls))"
  using started_then_ended [of h s uuid now requestError activityType attributes contentState info s1 p]
        Module_endActivity_removes [of i h s policy] run_initial_live [of h calls]
  by blast

theorem registry_holds_live_instances_witness:
  "startActivity (iPhone iOS_16_1) initial 0 0 None (JString ''CounterActivity'')
     (JObject [(''title'', AnyString ''T'')]) (JObject [(''value'', AnyInt 10)]) =
   (Inr \<lparr>info_activityId = uuidString 0, info_activityType = ''CounterActivity'',
         info_startTime = 0\<rparr>, counterStarted) \<and>
   uuidString 0 \<in> set (getAllActivities (iPhone iOS_16_1) counterStarted) \<and>
   endActivity (iPhone iOS_16_1) counterStarted (JString (uuidString 0)) None =
     (Inr (), \<lparr>activeActivities = DAList.delete (uuidString 0) (activeActivities counterStarted),
               hostCalls = [Request counterT, EndTask counterT policy_default]\<rparr>) \<and>
   uuidString 0 \<notin> set (getAllActivities (iPhone iOS_16_1)
      (snd (endActivity (iPhone iOS_16_1) counterStarted (JString (uuidString 0)) None))) \<and>
   set (getAllActivities (iPhone iOS_16_1)
      (snd (run (iPhone iOS_16_1) initial [counterStart, End (JString (uuidString 0)) None]))) = {}"
proof -
  have p: "parseDismissalPolicy (iPhone iOS_16_1) ''default'' = policy_default"
    by (simp add: parseDismissalPolicy_def lowercased_def lowercaseChar_def)
  have l: "DAList.lookup (activeActivities counterStarted) (uuidString 0) = Some counterT"
    by (simp add: counterStarted_def)
  have e: "endActivity (iPhone iOS_16_1) counterStarted (JString (uuidString 0)) None =
     (Inr (), \<lparr>activeActivities = DAList.delete (uuidString 0) (activeActivities counterStarted),
               hostCalls = [Request counterT, EndTask counterT policy_default]\<rparr>)"
    using endActivity_found [OF isSupported_iPhone(1) uuidString_nonempty l, of None] p
    by (simp add: counterStarted_def)
  have r: "fst (run (iPhone iOS_16_1) initial [counterStart, End (JString (uuidString 0)) None]) =
     [(counterStart, Started \<lparr>info_activityId = uuidString 0,
         info_activityType = ''CounterActivity'', info_startTime = 0\<rparr>),
      (End (JString (uuidString 0)) None, Done)]"
    by (simp add: counterStart_def start_counter_example e)
  show ?thesis
    using registry_holds_live_instances [of "iPhone iOS_16_1" initial 0 0 None
        "JString ''CounterActivity''" "JObject [(''title'', AnyString ''T'')]"
        "JObject [(''value'', AnyInt 10)]"
        "\<lparr>info_activityId = uuidString 0, info_activityType = ''CounterActivity'',
          info_startTime = 0\<rparr>" counterStarted None "uuidString 0" policy
        "[counterStart, End (JString (uuidString 0)) None]"]
      start_counter_example e r l
    by (simp add: liveAfter_def counterStart_def)
qed

text \<open>
  C5. \<open>startActivity\<close> fails with the unsupported error whenever \<open>isSupported\<close> is false.
  On a supported host it fails with the invalid-argument error whenever the kind is the
  empty string or not a string. In both cases the state is returned as it was: no call
  of the native module or of the host has been made and the registry has no new entry.
\<close>

theorem startActivity_validation:
  "(\<not> isSupported h \<longrightarrow>
      startActivity h s uuid now requestError activityType attributes contentState =
        (Inl (Error notSupportedMessage), s)) \<and>
   (isSupported h \<and> (activityType = JString [] \<or> typeof activityType \<noteq> ''string'') \<longrightarrow>
      startActivity h s uuid now requestError activityType attributes contentState =
        (Inl (Error ''activityType must be a non-empty string''), s))"
  by (auto simp: startActivity_def)

theorem startActivity_validation_witness:
  "startActivity android counterStarted 0 0 None (JString ''CounterActivity'')
      (JObject [(''title'', AnyString ''T'')]) (JObject [(''value'', AnyInt 10)]) =
     (Inl (Error notSupportedMessage), counterStarted) \<and>
   startActivity (iPhone iOS_16_1) counterStarted 0 0 None (JString [])
      (JObject [(''title'', AnyString ''T'')]) (JObject [(''value'', AnyInt 10)]) =
     (Inl (Error ''activityType must be a non-empty string''), counterStarted) \<and>
   startActivity (iPhone iOS_16_1) counterStarted 0 0 None (JNumber 7)
      (JObject [(''title'', AnyString ''T'')]) (JObject [(''value'', AnyInt 10)]) =
     (Inl (Error ''activityType must be a non-empty string''), counterStarted)"
  using startActivity_validation [of android counterStarted 0 0 None "JString ''CounterActivity''"
          "JObject [(''title'', AnyString ''T'')]" "JObject [(''value'', AnyInt 10)]"]
        startActivity_validation [of "iPhone iOS_16_1" counterStarted 0 0 None "JString []"
          "JObject [(''title'', AnyString ''T'')]" "JObject [(''value'', AnyInt 10)]"]
        startActivity_validation [of "iPhone iOS_16_1" counterStarted 0 0 None "JNumber 7"
          "JObject [(''title'', AnyString ''T'')]" "JObject [(''value'', AnyInt 10)]"]
        not_supported_android isSupported_iPhone(1)
  by simp

text \<open>
  C3. For every kind other than \<open>CounterActivity\<close>, \<open>StatusActivity\<close> and
  \<open>ProgressActivity\<close>, creation throws the unknown-type error; the native \<open>startActivity\<close>
  on a supported host fails with it and leaves the state as it was, so nothing is
  inserted into the registry; and so does the facade's \<open>startActivity\<close> for every such
  kind that passes its check of the empty string.
\<close>

theorem unknown_kind_rejected:
  "activityType \<notin> {''CounterActivity'', ''StatusActivity'', ''ProgressActivity''} \<longrightarrow>
     createActivity s requestError activityId activityType attributes contentState =
       Inl (LiveActivity (unknownType activityType)) \<and>
     (available iOS_16_1 h \<longrightarrow>
        Module_startActivity h s uuid now requestError activityType attributes contentState =
          (Inl (startFailed (''Unknown activity type: '' @ activityType)), s)) \<and>
     (isSupported h \<and> activityType \<noteq> [] \<longrightarrow>
        startActivity h s uuid now requestError (JString activityType)
            (JObject attributes) (JObject contentState) =
          (Inl (ErrorFrom ''Failed to start activity: ''
             (Rejected (startFailed (''Unknown activity type: '' @ activityType)))), s))"
  using isSupported_available [of h]
  by (auto simp: createActivity_unknown Module_startActivity_def Let_def startActivity_def
        call_startActivity_def js_or_def)

theorem unknown_kind_rejected_witness:
  "createActivity counterStarted None (uuidString 1) ''DoesNotExist'' [] [] =
     Inl (LiveActivity (unknownType ''DoesNotExist'')) \<and>
   Module_startActivity (iPhone iOS_16_1) counterStarted 1 0 None ''DoesNotExist'' [] [] =
     (Inl (startFailed ''Unknown activity type: DoesNotExist''), counterStarted) \<and>
   startActivity (iPhone iOS_16_1) counterStarted 1 0 None (JString ''DoesNotExist'')
       (JObject []) (JObject []) =
     (Inl (ErrorFrom ''Failed to start activity: ''
        (Rejected (startFailed ''Unknown activity type: DoesNotExist''))), counterStarted)"
  using unknown_kind_rejected [of "''DoesNotExist''" counterStarted None "uuidString 1" "[]" "[]"
          "iPhone iOS_16_1" 1 0]
        isSupported_iPhone
  by simp

text \<open>
  C4. For every id with no entry in the registry and every content, the update throws
  the not-found error before it looks at the content; the native \<open>updateActivity\<close> on a
  supported host fails with it and leaves the state as it was; and so does the facade's
  \<open>updateActivity\<close> for every such id that passes its check of the empty string,
  whether the payload is a record or a value the facade replaces by the empty record.
\<close>

theorem update_of_unknown_id_not_found:
  "activityId \<notin> registryKeys s \<longrightarrow>
     updateExistingActivity s activityId contentState = Inl (LiveActivity (notFound activityId)) \<and>
     (available iOS_16_1 h \<longrightarrow>
        Module_updateActivity h s activityId contentState =
          (Inl (updateFailed (''Activity not found: '' @ activityId)), s)) \<and>
     (isSupported h \<and> activityId \<noteq> [] \<and> (\<not> truthy payload \<or> payload = JObject contentState) \<longrightarrow>
        activityId \<notin> set (getAllActivities h s) \<and>
        updateActivity h s (JString activityId) payload =
          (Inl (ErrorFrom ''Failed to update activity: ''
             (Rejected (updateFailed (''Activity not found: '' @ activityId)))), s))"
  using isSupported_available [of h] getAllActivities_supported [of h s]
  by (auto simp: registryKeys_lookup updateExistingActivity_missing Module_updateActivity_def
        updateActivity_def call_updateActivity_def js_or_def)

theorem update_of_unknown_id_not_found_witness:
  "uuidString 1 \<notin> registryKeys initial \<and>
   updateExistingActivity initial (uuidString 1) [(''value'', AnyInt 5)] =
     Inl (LiveActivity (notFound (uuidString 1))) \<and>
   Module_updateActivity (iPhone iOS_16_1) initial (uuidString 1) [(''value'', AnyInt 5)] =
     (Inl (updateFailed (''Activity not found: '' @ uuidString 1)), initial) \<and>
   updateActivity (iPhone iOS_16_1) initial (JString (uuidString 1)) (JObject [(''value'', AnyInt 5)]) =
     (Inl (ErrorFrom ''Failed to update activity: ''
        (Rejected (updateFailed (''Activity not found: '' @ uuidString 1)))), initial) \<and>
   updateActivity (iPhone iOS_16_1) initial (JString (uuidString 1)) JNull =
     (Inl (ErrorFrom ''Failed to update activity: ''
        (Rejected (updateFailed (''Activity not found: '' @ uuidString 1)))), initial)"
proof -
  have k: "uuidString 1 \<notin> registryKeys initial"
    by (simp add: registryKeys_def initial_def DAList.empty.rep_eq)
  show ?thesis
    using update_of_unknown_id_not_found [of "uuidString 1" initial "[(''value'', AnyInt 5)]"
            "iPhone iOS_16_1" "JObject [(''value'', AnyInt 5)]"]
          update_of_unknown_id_not_found [of "uuidString 1" initial "[(''value'', AnyInt 5)]"
            "iPhone iOS_16_1" JNull]
          k isSupported_iPhone uuidString_nonempty [of 1]
    by simp
qed

text \<open>
  C6. On a host below iOS 16.2 a dismissal policy that reads \<open>after\<close> is parsed to the
  default policy. Every end called with it returns what the same call returns with
  \<open>default\<close>, or with no policy at all: the native \<open>endActivity\<close>, the facade's
  \<open>endActivity\<close> and \<open>endAllActivities\<close>. On a live id the call succeeds and the spawned
  teardown carries the default policy.
\<close>

theorem after_downgrades_to_default:
  "\<not> available iOS_16_2 h \<and> lowercased policy = ''after'' \<longrightarrow>
     parseDismissalPolicy h policy = policy_default \<and>
     parseDismissalPolicy h policy = parseDismissalPolicy h ''default'' \<and>
     Module_endActivity h s i policy = Module_endActivity h s i ''default'' \<and>
     endActivity h s v (Some policy) = endActivity h s v (Some ''default'') \<and>
     endActivity h s v (Some policy) = endActivity h s v None \<and>
     endAllActivities h s (Some policy) = endAllActivities h s None \<and>
     (isSupported h \<and> i \<noteq> [] \<and> DAList.lookup (activeActivities s) i = Some act \<longrightarrow>
        endActivity h s (JString i) (Some policy) =
          (Inr (), \<lparr>activeActivities = DAList.delete i (activeActivities s),
                    hostCalls = hostCalls s @ [EndTask act policy_default]\<rparr>))"
proof (intro impI, elim conjE)
  assume a: "\<not> available iOS_16_2 h" "lowercased policy = ''after''"
  have p: "parseDismissalPolicy h policy = policy_default"
    by (rule parseDismissalPolicy_after [OF a])
  then have q: "parseDismissalPolicy h policy = parseDismissalPolicy h ''default''"
    by (simp add: parseDismissalPolicy_default)
  have "isSupported h \<and> i \<noteq> [] \<and> DAList.lookup (activeActivities s) i = Some act \<longrightarrow>
        endActivity h s (JString i) (Some policy) =
          (Inr (), \<lparr>activeActivities = DAList.delete i (activeActivities s),
                    hostCalls = hostCalls s @ [EndTask act policy_default]\<rparr>)"
    using endActivity_found [of h i s act "Some policy"] p by simp
  with p q Module_endActivity_policy [OF q, of s i] endActivity_policy [OF q, of s v]
       endAllActivities_policy [OF q, of s]
  show "parseDismissalPolicy h policy = policy_default \<and>
     parseDismissalPolicy h policy = parseDismissalPolicy h ''default'' \<and>
     Module_endActivity h s i policy = Module_endActivity h s i ''default'' \<and>
     endActivity h s v (Some policy) = endActivity h s v (Some ''default'') \<and>
     endActivity h s v (Some policy) = endActivity h s v None \<and>
     endAllActivities h s (Some policy) = endAllActivities h s None \<and>
     (isSupported h \<and> i \<noteq> [] \<and> DAList.lookup (activeActivities s) i = Some act \<longrightarrow>
        endActivity h s (JString i) (Some policy) =
          (Inr (), \<lparr>activeActivities = DAList.delete i (activeActivities s),
                    hostCalls = hostCalls s @ [EndTask act policy_default]\<rparr>))"
    by blast
qed

theorem after_downgrades_to_default_witness:
  "\<not> available iOS_16_2 (iPhone iOS_16_1) \<and>
   parseDismissalPolicy (iPhone iOS_16_1) ''after'' = policy_default \<and>
   endActivity (iPhone iOS_16_1) counterStarted (JString (uuidString 0)) (Some ''after'') =
     (Inr (), \<lparr>activeActivities = DAList.delete (uuidString 0) (activeActivities counterStarted),
               hostCalls = [Request counterT, EndTask counterT policy_default]\<rparr>) \<and>
   parseDismissalPolicy (iPhone iOS_16_2) ''after'' = policy_after (NowPlus 3)"
proof -
  have n: "\<not> available iOS_16_2 (iPhone iOS_16_1)"
    by (simp add: available_def iPhone_def iOS_16_1_def iOS_16_2_def)
  have l: "DAList.lookup (activeActivities counterStarted) (uuidString 0) = Some counterT"
    by (simp add: counterStarted_def)
  have h: "hostCalls counterStarted = [Request counterT]"
    by (simp add: counterStarted_def)
  have y: "parseDismissalPolicy (iPhone iOS_16_2) ''after'' = policy_after (NowPlus 3)"
    by (simp add: parseDismissalPolicy_def lowercased_def lowercaseChar_def available_def
          iPhone_def iOS_16_2_def)
  have e: "endActivity (iPhone iOS_16_1) counterStarted (JString (uuidString 0)) (Some ''after'') =
     (Inr (), \<lparr>activeActivities = DAList.delete (uuidString 0) (activeActivities counterStarted),
               hostCalls = hostCalls counterStarted @ [EndTask counterT policy_default]\<rparr>)"
    and p: "parseDismissalPolicy (iPhone iOS_16_1) ''after'' = policy_default"
    using after_downgrades_to_default [of "iPhone iOS_16_1" "''after''" counterStarted
            "uuidString 0" "JString (uuidString 0)" counterT]
          n l lowercased_after isSupported_iPhone(1) uuidString_nonempty [of 0]
    by blast+
  from e p n y h show ?thesis by simp
qed

text \<open>
  C2. The kinds of the module are named \<open>CounterActivity\<close> and \<open>StatusActivity\<close>: with
  the kind \<open>Counter\<close> the call of the claim fails for the unknown kind, not for the
  missing \<open>title\<close>, and likewise with \<open>Status\<close>.
\<close>

theorem short_kind_names_counterexample:
  "createActivity initial None (uuidString 0) ''Counter'' [] [(''value'', AnyInt 1)] =
     Inl (LiveActivity (unknownType ''Counter'')) \<and>
   startActivity (iPhone iOS_16_1) initial 0 0 None (JString ''Counter'')
       (JObject []) (JObject [(''value'', AnyInt 1)]) =
     (Inl (ErrorFrom ''Failed to start activity: ''
        (Rejected (startFailed ''Unknown activity type: Counter''))), initial) \<and>
   startActivity (iPhone iOS_16_1) initial 0 0 None (JString ''Counter'')
       (JObject []) (JObject [(''value'', AnyInt 1)]) \<noteq>
     (Inl (ErrorFrom ''Failed to start activity: ''
        (Rejected (startFailed ''Invalid attributes: Missing 'title' for CounterActivity''))), initial) \<and>
   createActivity initial None (uuidString 0) ''Status''
       [(''identifier'', AnyString ''X''), (''title'', AnyString ''Y'')] [] =
     Inl (LiveActivity (unknownType ''Status'')) \<and>
   startActivity (iPhone iOS_16_1) initial 0 0 None (JString ''Status'')
       (JObject [(''identifier'', AnyString ''X''), (''title'', AnyString ''Y'')]) (JObject []) =
     (Inl (ErrorFrom ''Failed to start activity: ''
        (Rejected (startFailed ''Unknown activity type: Status''))), initial) \<and>
   startActivity (iPhone iOS_16_1) initial 0 0 None (JString ''Status'')
       (JObject [(''identifier'', AnyString ''X''), (''title'', AnyString ''Y'')]) (JObject []) \<noteq>
     (Inl (ErrorFrom ''Failed to start activity: ''
        (Rejected (startFailed ''Invalid content: Missing 'status' for StatusActivity''))), initial)"
proof -
  have c: "createActivity initial None (uuidString 0) ''Counter'' [] [(''value'', AnyInt 1)] =
     Inl (LiveActivity (unknownType ''Counter''))"
    by (simp add: createActivity_def)
  have s: "createActivity initial None (uuidString 0) ''Status''
       [(''identifier'', AnyString ''X''), (''title'', AnyString ''Y'')] [] =
     Inl (LiveActivity (unknownType ''Status''))"
    by (simp add: createActivity_def)
  from c s startActivity_create_error [OF isSupported_iPhone(1) _ c, of 0]
       startActivity_create_error [OF isSupported_iPhone(1) _ s, of 0]
  show ?thesis by simp
qed

text \<open>
  C2, amended. Creation of kind \<open>CounterActivity\<close> with attributes that have no string
  \<open>title\<close> throws the invalid-attributes error that names \<open>title\<close>, and creation of kind
  \<open>StatusActivity\<close> with both attributes present and a content that has no string
  \<open>status\<close> throws the invalid-content error that names \<open>status\<close>; on a supported host
  \<open>startActivity\<close> fails with them and leaves the state as it was.
\<close>

theorem missing_required_field_rejected:
  "(asString (map_of attributes ''title'') = None \<longrightarrow>
      createActivity s requestError activityId ''CounterActivity'' attributes contentState =
        Inl (LiveActivity (invalidAttributes ''Missing 'title' for CounterActivity'')) \<and>
      (isSupported h \<longrightarrow>
         startActivity h s uuid now requestError (JString ''CounterActivity'')
             (JObject attributes) (JObject contentState) =
           (Inl (ErrorFrom ''Failed to start activity: ''
              (Rejected (startFailed ''Invalid attributes: Missing 'title' for CounterActivity''))), s))) \<and>
   (asString (map_of attributes ''identifier'') \<noteq> None \<and>
    asString (map_of attributes ''title'') \<noteq> None \<and>
    asString (map_of contentState ''status'') = None \<longrightarrow>
      createActivity s requestError activityId ''StatusActivity'' attributes contentState =
        Inl (LiveActivity (invalidContent ''Missing 'status' for StatusActivity'')) \<and>
      (isSupported h \<longrightarrow>
         startActivity h s uuid now requestError (JString ''StatusActivity'')
             (JObject attributes) (JObject contentState) =
           (Inl (ErrorFrom ''Failed to start activity: ''
              (Rejected (startFailed ''Invalid content: Missing 'status' for StatusActivity''))), s)))"
  using create_counter_without_title [of attributes s requestError activityId contentState]
        create_counter_without_title [of attributes s requestError "uuidString uuid" contentState]
        create_status_without_status [of attributes contentState s requestError activityId]
        create_status_without_status [of attributes contentState s requestError "uuidString uuid"]
        startActivity_create_error [of h "''CounterActivity''" s requestError uuid attributes
          contentState _ now]
        startActivity_create_error [of h "''StatusActivity''" s requestError uuid attributes
          contentState _ now]
  by simp

theorem missing_required_field_rejected_witness:
  "startActivity (iPhone iOS_16_1) initial 0 0 None (JString ''CounterActivity'')
       (JObject []) (JObject [(''value'', AnyInt 1)]) =
     (Inl (ErrorFrom ''Failed to start activity: ''
        (Rejected (startFailed ''Invalid attributes: Missing 'title' for CounterActivity''))), initial) \<and>
   startActivity (iPhone iOS_16_1) initial 0 0 None (JString ''StatusActivity'')
       (JObject [(''identifier'', AnyString ''X''), (''title'', AnyString ''Y'')]) (JObject []) =
     (Inl (ErrorFrom ''Failed to start activity: ''
        (Rejected (startFailed ''Invalid content: Missing 'status' for StatusActivity''))), initial)"
  using missing_required_field_rejected [of "[]" initial None "uuidString 0"
          "[(''value'', AnyInt 1)]" "iPhone iOS_16_1" 0 0]
        missing_required_field_rejected [of
          "[(''identifier'', AnyString ''X''), (''title'', AnyString ''Y'')]" initial None
          "uuidString 0" "[]" "iPhone iOS_16_1" 0 0]
        isSupported_iPhone(1)
  by simp

text \<open>
  C8. On a supported host, an update of a live activity with a content that holds the
  required fields of its kind succeeds, whatever else the content holds or lacks: no
  attribute is asked for. The state it returns differs from the state before only by
  the spawned update task, which carries the activity and the parsed content: the
  registry, and with it the activity and its attributes, is the same, and so is the
  list of ids.
\<close>

theorem update_replaces_content_only:
  "isSupported h \<and> activityId \<noteq> [] \<and>
   DAList.lookup (activeActivities s) activityId = Some act \<and> hasRequiredContent act contentState \<longrightarrow>
     (\<exists>kind content.
        resolvedKind act = Some kind \<and> contentParser kind contentState = Inr content \<and>
        updateExistingActivity s activityId contentState =
          Inr (s\<lparr>hostCalls := hostCalls s @ [UpdateTask act content]\<rparr>) \<and>
        updateActivity h s (JString activityId) (JObject contentState) =
          (Inr (), s\<lparr>hostCalls := hostCalls s @ [UpdateTask act content]\<rparr>)) \<and>
     activeActivities (snd (updateActivity h s (JString activityId) (JObject contentState))) =
       activeActivities s \<and>
     getAllActivities h (snd (updateActivity h s (JString activityId) (JObject contentState))) =
       getAllActivities h s"
proof (intro impI, elim conjE)
  assume a: "isSupported h" "activityId \<noteq> []"
    "DAList.lookup (activeActivities s) activityId = Some act"
    "hasRequiredContent act contentState"
  from hasRequiredContent_parses [OF a(4)] obtain kind content where
    k: "resolvedKind act = Some kind" "contentParser kind contentState = Inr content" by blast
  have u: "updateActivity h s (JString activityId) (JObject contentState) =
      (Inr (), s\<lparr>hostCalls := hostCalls s @ [UpdateTask act content]\<rparr>)"
    by (rule updateActivity_by_kind [OF a(1,2,3) k])
  have e: "updateExistingActivity s activityId contentState =
      Inr (s\<lparr>hostCalls := hostCalls s @ [UpdateTask act content]\<rparr>)"
    using k by (simp add: updateExistingActivity_dispatch [OF a(3)] spawn_def)
  have r: "activeActivities (snd (updateActivity h s (JString activityId) (JObject contentState))) =
       activeActivities s"
    by (rule updateActivity_registry)
  then have g: "getAllActivities h (snd (updateActivity h s (JString activityId) (JObject contentState))) =
       getAllActivities h s"
    by (simp add: getAllActivities_def Module_getAllActivities_def)
  from k u e r g
  show "(\<exists>kind content.
        resolvedKind act = Some kind \<and> contentParser kind contentState = Inr content \<and>
        updateExistingActivity s activityId contentState =
          Inr (s\<lparr>hostCalls := hostCalls s @ [UpdateTask act content]\<rparr>) \<and>
        updateActivity h s (JString activityId) (JObject contentState) =
          (Inr (), s\<lparr>hostCalls := hostCalls s @ [UpdateTask act content]\<rparr>)) \<and>
     activeActivities (snd (updateActivity h s (JString activityId) (JObject contentState))) =
       activeActivities s \<and>
     getAllActivities h (snd (updateActivity h s (JString activityId) (JObject contentState))) =
       getAllActivities h s"
    by blast
qed

theorem update_replaces_content_only_witness:
  "startActivity (iPhone iOS_16_1) initial 0 0 None (JString ''CounterActivity'')
     (JObject [(''title'', AnyString ''T'')]) (JObject [(''value'', AnyInt 10)]) =
   (Inr \<lparr>info_activityId = uuidString 0, info_activityType = ''CounterActivity'',
         info_startTime = 0\<rparr>, counterStarted) \<and>
   updateActivity (iPhone iOS_16_1) counterStarted (JString (uuidString 0))
       (JObject [(''value'', AnyInt 5), (''status'', AnyString ''s'')]) =
     (Inr (), counterStarted\<lparr>hostCalls := [Request counterT,
        UpdateTask counterT
          (CounterContent \<lparr>counter_value = 5, counter_status = Some ''s''\<rparr>)]\<rparr>) \<and>
   DAList.lookup (activeActivities (snd (updateActivity (iPhone iOS_16_1) counterStarted
       (JString (uuidString 0)) (JObject [(''value'', AnyInt 5), (''status'', AnyString ''s'')]))))
     (uuidString 0) = Some counterT"
proof -
  let ?d = "[(''value'', AnyInt 5), (''status'', AnyString ''s'')]"
  have l: "DAList.lookup (activeActivities counterStarted) (uuidString 0) = Some counterT"
    by (simp add: counterStarted_def)
  have q: "hasRequiredContent counterT ?d"
    by (simp add: counterT_def)
  from update_replaces_content_only [of "iPhone iOS_16_1" "uuidString 0" counterStarted counterT ?d]
       isSupported_iPhone(1) uuidString_nonempty [of 0] l q
  obtain kind content where
    k: "resolvedKind counterT = Some kind" "contentParser kind ?d = Inr content"
    and u: "updateActivity (iPhone iOS_16_1) counterStarted (JString (uuidString 0)) (JObject ?d) =
      (Inr (), counterStarted\<lparr>hostCalls := hostCalls counterStarted @ [UpdateTask counterT content]\<rparr>)"
    by blast
  from k have "content = CounterContent \<lparr>counter_value = 5, counter_status = Some ''s''\<rparr>"
    by (simp add: counterT_def contentParser_def parseCounterContent_def)
  with u l start_counter_example show ?thesis
    by (simp add: counterStarted_def)
qed

text \<open>
  C9. When the creation of kind K succeeds under an id, the registry holds under that id
  a value the trial of casts resolves to K: an update of the id parses its content with
  the parser of K, and an end of the id spawns the teardown of that value. The trial
  decides every update: the unknown-type error is thrown exactly for a value no cast
  accepts. No state the module can reach holds such a value, so there no update throws
  the unknown-type error. An entry stays as it is through the module's calls until its
  id is ended or created again, so its kind is fixed while it lives.
\<close>

theorem dispatch_resolves_creation_kind:
  "(createActivity s requestError activityId kind attributes contentState = Inr s1 \<longrightarrow>
      (\<exists>act. DAList.lookup (activeActivities s1) activityId = Some act \<and>
         resolvedKind act = Some kind \<and>
         updateExistingActivity s1 activityId d =
           (case contentParser kind d of
              Inl e \<Rightarrow> Inl e
            | Inr content \<Rightarrow> Inr (spawn (UpdateTask act content) s1)) \<and>
         endExistingActivity s1 activityId p =
           Inr ((spawn (EndTask act p) s1)
                  \<lparr>activeActivities := DAList.delete activityId (activeActivities s1)\<rparr>))) \<and>
   (DAList.lookup (activeActivities s) i = Some stored \<longrightarrow>
      updateExistingActivity s i d =
        (case resolvedKind stored of
           None \<Rightarrow> Inl (LiveActivity (unknownType (''Unknown activity type for ID: '' @ i)))
         | Some k \<Rightarrow>
            (case contentParser k d of
               Inl e \<Rightarrow> Inl e
             | Inr content \<Rightarrow> Inr (spawn (UpdateTask stored content) s)))) \<and>
   (reachable h s \<longrightarrow>
      updateExistingActivity s i d \<noteq> Inl (LiveActivity (unknownType message)) \<and>
      (DAList.lookup (activeActivities s) i = Some stored \<longrightarrow> resolvedKind stored \<noteq> None)) \<and>
   DAList.lookup (activeActivities (snd (Module_updateActivity h s j d))) i =
     DAList.lookup (activeActivities s) i \<and>
   (j \<noteq> i \<longrightarrow>
      DAList.lookup (activeActivities (snd (Module_endActivity h s j policy))) i =
        DAList.lookup (activeActivities s) i) \<and>
   (uuidString uuid \<noteq> i \<longrightarrow>
      DAList.lookup (activeActivities
          (snd (Module_startActivity h s uuid now requestError kind attributes contentState))) i =
        DAList.lookup (activeActivities s) i)"
  using created_dispatch [of s requestError activityId kind attributes contentState s1 d p]
        updateExistingActivity_dispatch [of s i stored d]
        reachable_resolves [of h s i d message stored]
        Module_updateActivity_registry [of h s j d]
        Module_endActivity_other [of j i h s policy]
        Module_startActivity_other [of uuid i h s now requestError kind attributes contentState]
  by presburger

theorem dispatch_resolves_creation_kind_witness:
  "createActivity initial None (uuidString 0) ''CounterActivity''
     [(''title'', AnyString ''T'')] [(''value'', AnyInt 10)] = Inr counterStarted \<and>
   DAList.lookup (activeActivities counterStarted) (uuidString 0) = Some counterT \<and>
   resolvedKind counterT = Some ''CounterActivity'' \<and>
   updateExistingActivity counterStarted (uuidString 0) [(''value'', AnyInt 5)] =
     Inr (spawn (UpdateTask counterT
       (CounterContent \<lparr>counter_value = 5, counter_status = None\<rparr>)) counterStarted) \<and>
   updateExistingActivity counterStarted (uuidString 0) [(''status'', AnyString ''s'')] =
     Inl (LiveActivity (invalidContent ''Missing 'value' for CounterActivity'')) \<and>
   endExistingActivity counterStarted (uuidString 0) policy_immediate =
     Inr ((spawn (EndTask counterT policy_immediate) counterStarted)
            \<lparr>activeActivities := DAList.delete (uuidString 0) (activeActivities counterStarted)\<rparr>) \<and>
   reachable (iPhone iOS_16_1) counterStarted \<and>
   updateExistingActivity counterStarted (uuidString 0) [(''status'', AnyString ''s'')] \<noteq>
     Inl (LiveActivity (unknownType (''Unknown activity type for ID: '' @ uuidString 0)))"
proof -
  have l: "DAList.lookup (activeActivities counterStarted) (uuidString 0) = Some counterT"
    by (simp add: counterStarted_def)
  have c5: "contentParser ''CounterActivity'' [(''value'', AnyInt 5)] =
      Inr (CounterContent \<lparr>counter_value = 5, counter_status = None\<rparr>)"
    by (simp add: contentParser_def parseCounterContent_def)
  have cs: "contentParser ''CounterActivity'' [(''status'', AnyString ''s'')] =
      Inl (LiveActivity (invalidContent ''Missing 'value' for CounterActivity''))"
    by (simp add: contentParser_def parseCounterContent_def)
  from dispatch_resolves_creation_kind [of initial None "uuidString 0" "''CounterActivity''"
         "[(''title'', AnyString ''T'')]" "[(''value'', AnyInt 10)]" counterStarted
         "[(''value'', AnyInt 5)]" policy_immediate]
       create_counter_example l
  have a: "resolvedKind counterT = Some ''CounterActivity''"
    and b: "updateExistingActivity counterStarted (uuidString 0) [(''value'', AnyInt 5)] =
       (case contentParser ''CounterActivity'' [(''value'', AnyInt 5)] of
          Inl e \<Rightarrow> Inl e
        | Inr content \<Rightarrow> Inr (spawn (UpdateTask counterT content) counterStarted))"
    and e: "endExistingActivity counterStarted (uuidString 0) policy_immediate =
       Inr ((spawn (EndTask counterT policy_immediate) counterStarted)
            \<lparr>activeActivities := DAList.delete (uuidString 0) (activeActivities counterStarted)\<rparr>)"
    by auto
  have g: "updateExistingActivity counterStarted (uuidString 0) [(''status'', AnyString ''s'')] \<noteq>
       Inl (LiveActivity (unknownType (''Unknown activity type for ID: '' @ uuidString 0)))"
    using dispatch_resolves_creation_kind [where s = counterStarted and i = "uuidString 0"
         and d = "[(''status'', AnyString ''s'')]" and stored = counterT
         and h = "iPhone iOS_16_1"
         and message = "''Unknown activity type for ID: '' @ uuidString 0"]
       reachable_counterStarted
    by blast
  have f: "updateExistingActivity counterStarted (uuidString 0) [(''status'', AnyString ''s'')] =
       (case contentParser ''CounterActivity'' [(''status'', AnyString ''s'')] of
          Inl e \<Rightarrow> Inl e
        | Inr content \<Rightarrow> Inr (spawn (UpdateTask counterT content) counterStarted))"
    by (simp add: updateExistingActivity_dispatch [OF l] a)
  from a b e f g l c5 cs create_counter_example reachable_counterStarted
  show ?thesis by simp
qed

text \<open>
  C10. A value of \<open>attributes\<close> or of \<open>contentState\<close> that is null or undefined (or falsy
  in any other way) reaches the native module as the empty record, each argument on its
  own and whatever the other is: the call returns what it returns with \<open>{}\<close> in the
  place of that argument, which is never the rejection of an argument that does not
  convert. So on a supported host \<open>startActivity\<close> of \<open>CounterActivity\<close> with such
  attributes fails for the missing \<open>title\<close>, whether the content is a record or such a
  value too; with attributes that hold a \<open>title\<close> and such a content it fails for the
  missing \<open>value\<close>; and \<open>updateActivity\<close> of a live counter with such a content fails
  for the missing \<open>value\<close>.
\<close>

theorem nullish_records_become_empty:
  "(\<not> truthy attributes \<longrightarrow>
      startActivity h s uuid now requestError activityType attributes contentState =
        startActivity h s uuid now requestError activityType (JObject []) contentState) \<and>
   (\<not> truthy contentState \<longrightarrow>
      startActivity h s uuid now requestError activityType attributes contentState =
        startActivity h s uuid now requestError activityType attributes (JObject []) \<and>
      updateActivity h s activityId contentState = updateActivity h s activityId (JObject [])) \<and>
   (\<not> truthy attributes \<and> \<not> truthy contentState \<longrightarrow>
      startActivity h s uuid now requestError activityType attributes contentState =
        startActivity h s uuid now requestError activityType (JObject []) (JObject [])) \<and>
   (isSupported h \<and> \<not> truthy attributes \<and> (\<not> truthy contentState \<or> contentState = JObject c) \<longrightarrow>
      startActivity h s uuid now requestError (JString ''CounterActivity'') attributes contentState =
        (Inl (ErrorFrom ''Failed to start activity: ''
           (Rejected (startFailed ''Invalid attributes: Missing 'title' for CounterActivity''))), s)) \<and>
   (isSupported h \<and> asString (map_of a ''title'') \<noteq> None \<and> \<not> truthy contentState \<longrightarrow>
      startActivity h s uuid now requestError (JString ''CounterActivity'') (JObject a) contentState =
        (Inl (ErrorFrom ''Failed to start activity: ''
           (Rejected (startFailed ''Invalid content: Missing 'value' for CounterActivity''))), s)) \<and>
   (isSupported h \<and> i \<noteq> [] \<and> \<not> truthy contentState \<and>
    DAList.lookup (activeActivities s) i = Some (CounterActivity attrs content) \<longrightarrow>
      updateActivity h s (JString i) contentState =
        (Inl (ErrorFrom ''Failed to update activity: ''
           (Rejected (updateFailed ''Invalid content: Missing 'value' for CounterActivity''))), s)) \<and>
   \<not> truthy JNull \<and> \<not> truthy JUndefined"
proof -
  have p1: "startActivity h s uuid now requestError activityType attributes contentState =
        startActivity h s uuid now requestError activityType (JObject []) contentState"
    if "\<not> truthy attributes"
    using that by (rule startActivity_falsy_attributes)
  have p2: "startActivity h s uuid now requestError activityType attributes contentState =
        startActivity h s uuid now requestError activityType attributes (JObject [])"
    if "\<not> truthy contentState"
    using that by (rule startActivity_falsy_content)
  have p3: "updateActivity h s activityId contentState = updateActivity h s activityId (JObject [])"
    if "\<not> truthy contentState"
    using that by (rule updateActivity_falsy_record)
  have p4: "startActivity h s uuid now requestError activityType attributes contentState =
        startActivity h s uuid now requestError activityType (JObject []) (JObject [])"
    if "\<not> truthy attributes" "\<not> truthy contentState"
    using that by (rule startActivity_falsy_records)
  have p5: "startActivity h s uuid now requestError (JString ''CounterActivity'') attributes contentState =
       (Inl (ErrorFrom ''Failed to start activity: ''
          (Rejected (startFailed ''Invalid attributes: Missing 'title' for CounterActivity''))), s)"
    if t: "isSupported h" "\<not> truthy attributes" "\<not> truthy contentState \<or> contentState = JObject c"
  proof -
    have e: "startActivity h s uuid now requestError (JString ''CounterActivity'') attributes contentState =
        startActivity h s uuid now requestError (JString ''CounterActivity'') (JObject []) contentState"
      by (rule startActivity_falsy_attributes [OF t(2)])
    from t(3) show ?thesis
    proof
      assume f: "\<not> truthy contentState"
      have "startActivity h s uuid now requestError (JString ''CounterActivity'') (JObject []) contentState =
          startActivity h s uuid now requestError (JString ''CounterActivity'') (JObject []) (JObject [])"
        by (rule startActivity_falsy_content [OF f])
      with e start_counter_without_title [OF t(1), of "[]" s uuid now requestError "[]"]
      show ?thesis by simp
    next
      assume "contentState = JObject c"
      with e start_counter_without_title [OF t(1), of "[]" s uuid now requestError c]
      show ?thesis by simp
    qed
  qed
  have p6: "startActivity h s uuid now requestError (JString ''CounterActivity'') (JObject a) contentState =
       (Inl (ErrorFrom ''Failed to start activity: ''
          (Rejected (startFailed ''Invalid content: Missing 'value' for CounterActivity''))), s)"
    if t: "isSupported h" "asString (map_of a ''title'') \<noteq> None" "\<not> truthy contentState"
  proof -
    have "startActivity h s uuid now requestError (JString ''CounterActivity'') (JObject a) contentState =
        startActivity h s uuid now requestError (JString ''CounterActivity'') (JObject a) (JObject [])"
      by (rule startActivity_falsy_content [OF t(3)])
    with start_counter_without_value [OF t(1,2), of "[]" s uuid now requestError]
    show ?thesis by simp
  qed
  have p7: "updateActivity h s (JString i) contentState =
       (Inl (ErrorFrom ''Failed to update activity: ''
          (Rejected (updateFailed ''Invalid content: Missing 'value' for CounterActivity''))), s)"
    if t: "isSupported h" "i \<noteq> []" "\<not> truthy contentState"
       "DAList.lookup (activeActivities s) i = Some (CounterActivity attrs content)"
  proof -
    have "updateActivity h s (JString i) contentState = updateActivity h s (JString i) (JObject [])"
      by (rule updateActivity_falsy_record [OF t(3)])
    with update_counter_without_value [OF t(1,2,4), of "[]"] show ?thesis by simp
  qed
  have p8: "\<not> truthy JNull" "\<not> truthy JUndefined" by simp_all
  from p1 p2 p3 p4 p5 p6 p7 p8 show ?thesis by blast
qed

theorem nullish_records_become_empty_witness:
  "startActivity (iPhone iOS_16_1) initial 0 0 None (JString ''CounterActivity'') JNull JNull =
     (Inl (ErrorFrom ''Failed to start activity: ''
        (Rejected (startFailed ''Invalid attributes: Missing 'title' for CounterActivity''))), initial) \<and>
   startActivity (iPhone iOS_16_1) initial 0 0 None (JString ''CounterActivity'') JUndefined JUndefined =
     (Inl (ErrorFrom ''Failed to start activity: ''
        (Rejected (startFailed ''Invalid attributes: Missing 'title' for CounterActivity''))), initial) \<and>
   startActivity (iPhone iOS_16_1) initial 0 0 None (JString ''CounterActivity'') JNull
       (JObject [(''value'', AnyInt 10)]) =
     (Inl (ErrorFrom ''Failed to start activity: ''
        (Rejected (startFailed ''Invalid attributes: Missing 'title' for CounterActivity''))), initial) \<and>
   startActivity (iPhone iOS_16_1) initial 0 0 None (JString ''CounterActivity'')
       (JObject [(''title'', AnyString ''T'')]) JNull =
     (Inl (ErrorFrom ''Failed to start activity: ''
        (Rejected (startFailed ''Invalid content: Missing 'value' for CounterActivity''))), initial) \<and>
   startActivity (iPhone iOS_16_1) initial 0 0 None (JString ''CounterActivity'')
       (JObject [(''title'', AnyString ''T'')]) JUndefined =
     (Inl (ErrorFrom ''Failed to start activity: ''
        (Rejected (startFailed ''Invalid content: Missing 'value' for CounterActivity''))), initial) \<and>
   updateActivity (iPhone iOS_16_1) counterStarted (JString (uuidString 0)) JNull =
     (Inl (ErrorFrom ''Failed to update activity: ''
        (Rejected (updateFailed ''Invalid content: Missing 'value' for CounterActivity''))),
      counterStarted) \<and>
   updateActivity (iPhone iOS_16_1) counterStarted (JString (uuidString 0)) JUndefined =
     (Inl (ErrorFrom ''Failed to update activity: ''
        (Rejected (updateFailed ''Invalid content: Missing 'value' for CounterActivity''))),
      counterStarted)"
proof -
  let ?at = "\<lparr>counter_title = ''T'', counter_color = None\<rparr>"
  let ?ct = "\<lparr>counter_value = 10, counter_status = None\<rparr>"
  have l: "DAList.lookup (activeActivities counterStarted) (uuidString 0) =
      Some (CounterActivity ?at ?ct)"
    by (simp add: counterStarted_def counterT_def)
  have t: "asString (map_of [(''title'', AnyString ''T'')] ''title'') \<noteq> None" by simp
  note sup = isSupported_iPhone(1)
  note n = uuidString_nonempty [of 0]
  have f: "\<not> truthy JNull" "\<not> truthy JUndefined" by simp_all
  have w1: "startActivity (iPhone iOS_16_1) initial 0 0 None (JString ''CounterActivity'') JNull JNull =
     (Inl (ErrorFrom ''Failed to start activity: ''
        (Rejected (startFailed ''Invalid attributes: Missing 'title' for CounterActivity''))), initial)"
    using nullish_records_become_empty [where attributes = JNull and contentState = JNull
            and h = "iPhone iOS_16_1" and s = initial and uuid = 0 and now = 0
            and requestError = None] sup f
    by blast
  have w2: "startActivity (iPhone iOS_16_1) initial 0 0 None (JString ''CounterActivity'')
       JUndefined JUndefined =
     (Inl (ErrorFrom ''Failed to start activity: ''
        (Rejected (startFailed ''Invalid attributes: Missing 'title' for CounterActivity''))), initial)"
    using nullish_records_become_empty [where attributes = JUndefined and contentState = JUndefined
            and h = "iPhone iOS_16_1" and s = initial and uuid = 0 and now = 0
            and requestError = None] sup f
    by blast
  have w3: "startActivity (iPhone iOS_16_1) initial 0 0 None (JString ''CounterActivity'') JNull
       (JObject [(''value'', AnyInt 10)]) =
     (Inl (ErrorFrom ''Failed to start activity: ''
        (Rejected (startFailed ''Invalid attributes: Missing 'title' for CounterActivity''))), initial)"
    using nullish_records_become_empty [where attributes = JNull
            and contentState = "JObject [(''value'', AnyInt 10)]" and c = "[(''value'', AnyInt 10)]"
            and h = "iPhone iOS_16_1" and s = initial and uuid = 0 and now = 0
            and requestError = None] sup f
    by blast
  have w4: "startActivity (iPhone iOS_16_1) initial 0 0 None (JString ''CounterActivity'')
       (JObject [(''title'', AnyString ''T'')]) JNull =
     (Inl (ErrorFrom ''Failed to start activity: ''
        (Rejected (startFailed ''Invalid content: Missing 'value' for CounterActivity''))), initial)"
    using nullish_records_become_empty [where contentState = JNull
            and a = "[(''title'', AnyString ''T'')]"
            and h = "iPhone iOS_16_1" and s = initial and uuid = 0 and now = 0
            and requestError = None] sup f t
    by blast
  have w5: "startActivity (iPhone iOS_16_1) initial 0 0 None (JString ''CounterActivity'')
       (JObject [(''title'', AnyString ''T'')]) JUndefined =
     (Inl (ErrorFrom ''Failed to start activity: ''
        (Rejected (startFailed ''Invalid content: Missing 'value' for CounterActivity''))), initial)"
    using nullish_records_become_empty [where contentState = JUndefined
            and a = "[(''title'', AnyString ''T'')]"
            and h = "iPhone iOS_16_1" and s = initial and uuid = 0 and now = 0
            and requestError = None] sup f t
    by blast
  have w6: "updateActivity (iPhone iOS_16_1) counterStarted (JString (uuidString 0)) JNull =
     (Inl (ErrorFrom ''Failed to update activity: ''
        (Rejected (updateFailed ''Invalid content: Missing 'value' for CounterActivity''))),
      counterStarted)"
    using nullish_records_become_empty [where contentState = JNull
            and h = "iPhone iOS_16_1" and s = counterStarted and i = "uuidString 0"
            and attrs = ?at and content = ?ct] sup f l n
    by blast
  have w7: "updateActivity (iPhone iOS_16_1) counterStarted (JString (uuidString 0)) JUndefined =
     (Inl (ErrorFrom ''Failed to update activity: ''
        (Rejected (updateFailed ''Invalid content: Missing 'value' for CounterActivity''))),
      counterStarted)"
    using nullish_records_become_empty [where contentState = JUndefined
            and h = "iPhone iOS_16_1" and s = counterStarted and i = "uuidString 0"
            and attrs = ?at and content = ?ct] sup f l n
    by blast
  from w1 w2 w3 w4 w5 w6 w7 show ?thesis by blast
qed

text \<open>
  C7. When \<open>isSupported\<close> is false, \<open>endAllActivities\<close> returns without error and leaves
  the state as it was. On a supported host, in every state the module can reach, it
  returns without error, \<open>getAllActivities\<close> is empty afterwards, and the host calls made
  are exactly one spawned teardown for each entry of the registry, with the activity of
  that entry and the parsed policy: every id is ended. On a supported host and in every
  state, whether the call fails or not, the ids listed afterwards are those listed before
  whose own end was refused, which is the empty string alone, and the teardown has been
  spawned for every other entry: a failure of one end leaves the other entries removed
  and their teardowns requested.
\<close>

theorem endAllActivities_ends_every_id:
  "(\<not> isSupported h \<longrightarrow> endAllActivities h s dismissalPolicy = (Inr (), s)) \<and>
   (isSupported h \<and> reachable h s \<longrightarrow>
      fst (endAllActivities h s dismissalPolicy) = Inr () \<and>
      getAllActivities h (snd (endAllActivities h s dismissalPolicy)) = [] \<and>
      hostCalls (snd (endAllActivities h s dismissalPolicy)) =
        hostCalls s @
          map (\<lambda>e. EndTask (snd e)
                 (parseDismissalPolicy h (case dismissalPolicy of None \<Rightarrow> ''default'' | Some q \<Rightarrow> q)))
              (DAList.impl_of (activeActivities s))) \<and>
   (isSupported h \<longrightarrow>
      set (getAllActivities h (snd (endAllActivities h s dismissalPolicy))) =
        set (getAllActivities h s) \<inter> {[]} \<and>
      hostCalls (snd (endAllActivities h s dismissalPolicy)) =
        hostCalls s @
          map (\<lambda>e. EndTask (snd e)
                 (parseDismissalPolicy h (case dismissalPolicy of None \<Rightarrow> ''default'' | Some q \<Rightarrow> q)))
              (filter (\<lambda>e. fst e \<noteq> []) (DAList.impl_of (activeActivities s)))) \<and>
   (isSupported h \<and> i \<noteq> [] \<and> DAList.lookup (activeActivities s) i = Some act \<longrightarrow>
      i \<in> set (getAllActivities h s) \<and>
      i \<notin> set (getAllActivities h (snd (endAllActivities h s dismissalPolicy))) \<and>
      EndTask act
          (parseDismissalPolicy h (case dismissalPolicy of None \<Rightarrow> ''default'' | Some q \<Rightarrow> q))
        \<in> set (hostCalls (snd (endAllActivities h s dismissalPolicy))))"
proof -
  let ?pol = "parseDismissalPolicy h (case dismissalPolicy of None \<Rightarrow> ''default'' | Some q \<Rightarrow> q)"
  let ?s' = "snd (endAllActivities h s dismissalPolicy)"
  let ?xs = "DAList.impl_of (activeActivities s)"
  have a: "endAllActivities h s dismissalPolicy = (Inr (), s)" if "\<not> isSupported h"
    using that by (rule endAllActivities_unsupported)
  have c: "set (getAllActivities h ?s') = set (getAllActivities h s) \<inter> {[]}" if "isSupported h"
    using endAllActivities_keys [OF that, of s dismissalPolicy] getAllActivities_supported [OF that]
    by simp
  have t: "hostCalls ?s' =
      hostCalls s @ map (\<lambda>e. EndTask (snd e) ?pol) (filter (\<lambda>e. fst e \<noteq> []) ?xs)"
    if "isSupported h"
    by (rule endAllActivities_hostCalls [OF that])
  have b: "fst (endAllActivities h s dismissalPolicy) = Inr () \<and>
      getAllActivities h ?s' = [] \<and>
      hostCalls ?s' = hostCalls s @ map (\<lambda>e. EndTask (snd e) ?pol) ?xs"
    if "isSupported h" "reachable h s"
  proof -
    note w = reachable_wellFormed [OF that(2)]
    from wellFormed_no_empty_key [OF w] have n: "[] \<notin> registryKeys s" .
    with c [OF that(1)] getAllActivities_supported [OF that(1), of s]
    have "set (getAllActivities h ?s') = {}" by auto
    with endAllActivities_succeeds [OF that(1) n, of dismissalPolicy] t [OF that(1)]
         wellFormed_filter [OF w]
    show ?thesis by simp
  qed
  have d: "i \<in> set (getAllActivities h s) \<and> i \<notin> set (getAllActivities h ?s') \<and>
      EndTask act ?pol \<in> set (hostCalls ?s')"
    if "isSupported h" "i \<noteq> []" "DAList.lookup (activeActivities s) i = Some act"
  proof -
    from that(3) have "map_of ?xs i = Some act" by (simp add: DAList.lookup.rep_eq)
    then have m: "(i, act) \<in> set ?xs" by (rule map_of_SomeD)
    with that(2) have "(i, act) \<in> set (filter (\<lambda>e. fst e \<noteq> []) ?xs)" by simp
    then have "EndTask (snd (i, act)) ?pol \<in>
        (\<lambda>e. EndTask (snd e) ?pol) ` set (filter (\<lambda>e. fst e \<noteq> []) ?xs)"
      by (rule imageI)
    then have e: "EndTask act ?pol \<in> set (hostCalls ?s')"
      by (simp only: t [OF that(1)] set_append set_map snd_conv UnI2)
    from m have "fst (i, act) \<in> fst ` set ?xs" by (rule imageI)
    then have k: "i \<in> registryKeys s" by (simp only: registryKeys_def set_map fst_conv)
    then have g1: "i \<in> set (getAllActivities h s)"
      by (simp only: getAllActivities_supported [OF that(1)])
    have g2: "i \<notin> set (getAllActivities h ?s')"
      using that(2) by (simp only: c [OF that(1)] Int_iff singleton_iff simp_thms)
    from g1 g2 e show ?thesis by (intro conjI)
  qed
  have A: "\<not> isSupported h \<longrightarrow> endAllActivities h s dismissalPolicy = (Inr (), s)"
    using a by (rule impI)
  have B: "isSupported h \<and> reachable h s \<longrightarrow>
      fst (endAllActivities h s dismissalPolicy) = Inr () \<and>
      getAllActivities h ?s' = [] \<and>
      hostCalls ?s' = hostCalls s @ map (\<lambda>e. EndTask (snd e) ?pol) ?xs"
  proof (intro impI, elim conjE)
    assume "isSupported h" "reachable h s"
    then show "fst (endAllActivities h s dismissalPolicy) = Inr () \<and>
      getAllActivities h ?s' = [] \<and>
      hostCalls ?s' = hostCalls s @ map (\<lambda>e. EndTask (snd e) ?pol) ?xs"
      by (rule b)
  qed
  have C: "isSupported h \<longrightarrow>
      set (getAllActivities h ?s') = set (getAllActivities h s) \<inter> {[]} \<and>
      hostCalls ?s' =
        hostCalls s @ map (\<lambda>e. EndTask (snd e) ?pol) (filter (\<lambda>e. fst e \<noteq> []) ?xs)"
  proof (intro impI conjI)
    assume "isSupported h"
    then show "set (getAllActivities h ?s') = set (getAllActivities h s) \<inter> {[]}" by (rule c)
  next
    assume "isSupported h"
    then show "hostCalls ?s' =
        hostCalls s @ map (\<lambda>e. EndTask (snd e) ?pol) (filter (\<lambda>e. fst e \<noteq> []) ?xs)"
      by (rule t)
  qed
  have D: "isSupported h \<and> i \<noteq> [] \<and> DAList.lookup (activeActivities s) i = Some act \<longrightarrow>
      i \<in> set (getAllActivities h s) \<and> i \<notin> set (getAllActivities h ?s') \<and>
      EndTask act ?pol \<in> set (hostCalls ?s')"
  proof (intro impI, elim conjE)
    assume "isSupported h" "i \<noteq> []" "DAList.lookup (activeActivities s) i = Some act"
    then show "i \<in> set (getAllActivities h s) \<and> i \<notin> set (getAllActivities h ?s') \<and>
      EndTask act ?pol \<in> set (hostCalls ?s')"
      by (rule d)
  qed
  show ?thesis
    by (intro conjI) (rule A, rule B, rule C, rule D)
qed

theorem endAllActivities_ends_every_id_witness:
  "endAllActivities android counterStarted None = (Inr (), counterStarted) \<and>
   getAllActivities (iPhone iOS_16_1) counterStarted = [uuidString 0] \<and>
   fst (endAllActivities (iPhone iOS_16_1) counterStarted None) = Inr () \<and>
   getAllActivities (iPhone iOS_16_1) (snd (endAllActivities (iPhone iOS_16_1) counterStarted None)) = [] \<and>
   hostCalls (snd (endAllActivities (iPhone iOS_16_1) counterStarted None)) =
     [Request counterT, EndTask counterT policy_default] \<and>
   getAllActivities (iPhone iOS_16_1) withEmptyId = [uuidString 0, []] \<and>
   fst (endAllActivities (iPhone iOS_16_1) withEmptyId None) =
     Inl (ErrorFrom ''Failed to end all activities: ''
            (Error ''activityId must be a non-empty string'')) \<and>
   set (getAllActivities (iPhone iOS_16_1) (snd (endAllActivities (iPhone iOS_16_1) withEmptyId None))) =
     {[]} \<and>
   hostCalls (snd (endAllActivities (iPhone iOS_16_1) withEmptyId None)) =
     [EndTask counterT policy_default]"
proof -
  note sup = isSupported_iPhone(1)
  have g: "getAllActivities (iPhone iOS_16_1) counterStarted = [uuidString 0]"
    by (simp add: getAllActivities_def Module_getAllActivities_def isSupported_iPhone
          counterStarted_def DAList.update.rep_eq DAList.empty.rep_eq)
  have x: "DAList.impl_of (activeActivities counterStarted) = [(uuidString 0, counterT)]"
    "hostCalls counterStarted = [Request counterT]"
    by (simp_all add: counterStarted_def DAList.update.rep_eq DAList.empty.rep_eq)
  have y: "DAList.impl_of (activeActivities withEmptyId) = [(uuidString 0, counterT), ([], counterT)]"
    "hostCalls withEmptyId = []"
    using uuidString_nonempty [of 0]
    by (simp_all add: withEmptyId_def DAList.update.rep_eq DAList.empty.rep_eq)
  have u: "endAllActivities android counterStarted None = (Inr (), counterStarted)"
    using endAllActivities_ends_every_id [of android counterStarted None] not_supported_android
    by simp
  have r: "fst (endAllActivities (iPhone iOS_16_1) counterStarted None) = Inr ()"
    "getAllActivities (iPhone iOS_16_1) (snd (endAllActivities (iPhone iOS_16_1) counterStarted None)) = []"
    "hostCalls (snd (endAllActivities (iPhone iOS_16_1) counterStarted None)) =
       hostCalls counterStarted @
         map (\<lambda>e. EndTask (snd e)
                (parseDismissalPolicy (iPhone iOS_16_1) (case None of None \<Rightarrow> ''default'' | Some q \<Rightarrow> q)))
             (DAList.impl_of (activeActivities counterStarted))"
    using endAllActivities_ends_every_id [of "iPhone iOS_16_1" counterStarted None]
          sup reachable_counterStarted
    by simp_all
  have f: "set (getAllActivities (iPhone iOS_16_1)
        (snd (endAllActivities (iPhone iOS_16_1) withEmptyId None))) =
      set (getAllActivities (iPhone iOS_16_1) withEmptyId) \<inter> {[]}"
    "hostCalls (snd (endAllActivities (iPhone iOS_16_1) withEmptyId None)) =
       hostCalls withEmptyId @
         map (\<lambda>e. EndTask (snd e)
                (parseDismissalPolicy (iPhone iOS_16_1) (case None of None \<Rightarrow> ''default'' | Some q \<Rightarrow> q)))
             (filter (\<lambda>e. fst e \<noteq> []) (DAList.impl_of (activeActivities withEmptyId)))"
    using endAllActivities_ends_every_id [of "iPhone iOS_16_1" withEmptyId None] sup
    by simp_all
  from g u r f x y getAllActivities_withEmptyId endAllActivities_withEmptyId
       uuidString_nonempty [of 0]
  show ?thesis by (simp add: parseDismissalPolicy_default)
qed

end
